theory Spec2Isabelle
  imports Complex_Main
begin

section \<open>Python values shared by both modules\<close>

text \<open>
  Exceptions are values.  \<open>SystemExit c\<close> is what \<^verbatim>\<open>sys.exit(c)\<close> raises and
  \<open>ExrError\<close> is the exception of the EXR reader; the other constructors are the
  built-in exceptions that the modelled statements can raise.
\<close>

datatype py_error =
    IndexError
  | KeyError string
  | AttributeError
  | TypeError
  | NameError string
  | ValueError
  | RuntimeError
  | OSError
  | ExrError
  | SystemExit int

type_synonym path = string

text \<open>An array read from disk; only its entries matter here, not its shape.\<close>

type_synonym ndarray = "real list"

text \<open>
  The subscript \<^verbatim>\<open>xs[i]\<close> of a list: \<open>i\<close> from \<open>0\<close> up to the length selects from the
  front, \<open>i\<close> from \<open>-1\<close> down to minus the length selects from the back, and any other
  \<open>i\<close> raises \<^verbatim>\<open>IndexError\<close>.
\<close>

definition py_index :: "'a list \<Rightarrow> int \<Rightarrow> py_error + 'a" where
  "py_index xs i =
     (if 0 \<le> i \<and> i < int (length xs) then Inr (xs ! nat i)
      else if i < 0 \<and> - int (length xs) \<le> i then Inr (xs ! nat (int (length xs) + i))
      else Inl IndexError)"

section \<open>utils/data\_loaders.py\<close>

datatype DatasetType = TRAIN | TEST | VAL

text \<open>One entry of the taxonomy manifest (the JSON objects read in \<^verbatim>\<open>__init__\<close>).\<close>

record taxonomy =
  taxonomy_id :: string
  taxonomy_name :: string
  train :: "string list"
  test :: "string list"
  val :: "string list"

text \<open>
  The dictionary appended by \<^verbatim>\<open>get_files_of_taxonomy\<close>; the field names are its
  keys (\<open>d_\<close> is prefixed where the key is also a manifest key).
\<close>

record descriptor =
  d_taxonomy_name :: string
  d_sample_name :: string
  left_rgb_images :: "path list"
  right_rgb_images :: "path list"
  left_disp_images :: "path list"
  right_disp_images :: "path list"
  volume :: path

text \<open>
  \<^verbatim>\<open>ShapeNetDataLoader\<close>.  The five path templates are configuration strings that
  the code fills in with \<^verbatim>\<open>template % (taxonomy, sample[, view])\<close>; a template is
  taken here as the function from those arguments to the formatted path.
\<close>

record ShapeNetDataLoader =
  dataset_taxonomy :: "taxonomy list"
  left_rgb_image_path_template :: "string \<Rightarrow> string \<Rightarrow> int \<Rightarrow> path"
  right_rgb_image_path_template :: "string \<Rightarrow> string \<Rightarrow> int \<Rightarrow> path"
  left_disp_image_path_template :: "string \<Rightarrow> string \<Rightarrow> int \<Rightarrow> path"
  right_disp_image_path_template :: "string \<Rightarrow> string \<Rightarrow> int \<Rightarrow> path"
  volume_path_template :: "string \<Rightarrow> string \<Rightarrow> path"

text \<open>
  The storage backend and the decoding libraries, as the loader sees them:
  \<^item> \<open>path_exists\<close> is \<^verbatim>\<open>os.path.exists\<close>;
  \<^item> \<open>imread\<close> is \<^verbatim>\<open>cv2.imread\<close>, which returns \<^verbatim>\<open>None\<close> for a file it cannot
    read;
  \<^item> \<open>exr_open\<close> is \<^verbatim>\<open>pyexr.open\<close>, the channels of the file by name, or the
    reader's exception (\<open>None\<close>) for a file it cannot open;
  \<^item> \<open>loadmat\<close> is \<^verbatim>\<open>scipy.io.loadmat\<close>, the dictionary of the container in key
    order, or an exception (\<open>None\<close>) for a file it cannot open.
\<close>

record storage =
  path_exists :: "path \<Rightarrow> bool"
  imread :: "path \<Rightarrow> ndarray option"
  exr_open :: "path \<Rightarrow> (string \<times> ndarray) list option"
  loadmat :: "path \<Rightarrow> (string \<times> ndarray) list option"

subsection \<open>The sample index builder\<close>

text \<open>\<^verbatim>\<open>range(total_views)\<close>: empty when \<open>total_views \<le> 0\<close>.\<close>

definition py_range :: "int \<Rightarrow> int list" where
  "py_range n = map int [0..<nat n]"

text \<open>
  The body of the loop over \<open>samples\<close> in \<^verbatim>\<open>get_files_of_taxonomy\<close>.  The state is
  \<open>files_of_taxonomy\<close> together with the warnings printed so far, each warning recorded
  as the pair (taxonomy folder, sample name) it reports.  The inner loop appends one
  path per view index to each of the four lists, which is a \<open>map\<close> over the indices.
\<close>

definition files_of_sample ::
  "ShapeNetDataLoader \<Rightarrow> string \<Rightarrow> int \<Rightarrow> string \<Rightarrow> descriptor" where
  "files_of_sample self taxonomy_folder_name total_views sample_name =
     (let image_indexes = py_range total_views in
      \<lparr> d_taxonomy_name = taxonomy_folder_name,
        d_sample_name = sample_name,
        left_rgb_images =
          map (left_rgb_image_path_template self taxonomy_folder_name sample_name) image_indexes,
        right_rgb_images =
          map (right_rgb_image_path_template self taxonomy_folder_name sample_name) image_indexes,
        left_disp_images =
          map (left_disp_image_path_template self taxonomy_folder_name sample_name) image_indexes,
        right_disp_images =
          map (right_disp_image_path_template self taxonomy_folder_name sample_name) image_indexes,
        volume = volume_path_template self taxonomy_folder_name sample_name \<rparr>)"

definition sample_step ::
  "ShapeNetDataLoader \<Rightarrow> storage \<Rightarrow> string \<Rightarrow> int \<Rightarrow>
   descriptor list \<times> (string \<times> string) list \<Rightarrow> string \<Rightarrow>
   descriptor list \<times> (string \<times> string) list" where
  "sample_step self fs taxonomy_folder_name total_views acc sample_name =
     (let volume_file_path = volume_path_template self taxonomy_folder_name sample_name in
      if \<not> path_exists fs volume_file_path
      then (fst acc, snd acc @ [(taxonomy_folder_name, sample_name)])
      else (fst acc @ [files_of_sample self taxonomy_folder_name total_views sample_name],
            snd acc))"

definition get_files_of_taxonomy ::
  "ShapeNetDataLoader \<Rightarrow> storage \<Rightarrow> string \<Rightarrow> string list \<Rightarrow> int \<Rightarrow>
   descriptor list \<times> (string \<times> string) list" where
  "get_files_of_taxonomy self fs taxonomy_folder_name samples total_views =
     foldl (sample_step self fs taxonomy_folder_name total_views) ([], []) samples"

text \<open>\<^verbatim>\<open>get_dataset\<close>: the split is selected per taxonomy, the descriptors are
  appended to \<open>files\<close> in manifest order.\<close>

definition split_samples :: "DatasetType \<Rightarrow> taxonomy \<Rightarrow> string list" where
  "split_samples dataset_type t =
     (case dataset_type of TRAIN \<Rightarrow> train t | TEST \<Rightarrow> test t | VAL \<Rightarrow> val t)"

definition taxonomy_step ::
  "ShapeNetDataLoader \<Rightarrow> storage \<Rightarrow> DatasetType \<Rightarrow> int \<Rightarrow>
   descriptor list \<times> (string \<times> string) list \<Rightarrow> taxonomy \<Rightarrow>
   descriptor list \<times> (string \<times> string) list" where
  "taxonomy_step self fs dataset_type total_views acc t =
     (let taxonomy_folder_name = taxonomy_id t;
          samples = split_samples dataset_type t;
          r = get_files_of_taxonomy self fs taxonomy_folder_name samples total_views
      in (fst acc @ fst r, snd acc @ snd r))"

definition get_dataset ::
  "ShapeNetDataLoader \<Rightarrow> storage \<Rightarrow> DatasetType \<Rightarrow> int \<Rightarrow>
   descriptor list \<times> (string \<times> string) list" where
  "get_dataset self fs dataset_type total_views =
     foldl (taxonomy_step self fs dataset_type total_views) ([], []) (dataset_taxonomy self)"

subsection \<open>The sample loader\<close>

text \<open>Sequencing of statements that may raise: the first exception ends the call.\<close>

fun bind_err :: "py_error + 'a \<Rightarrow> ('a \<Rightarrow> py_error + 'b) \<Rightarrow> py_error + 'b" where
  "bind_err (Inl e) f = Inl e"
| "bind_err (Inr v) f = f v"

text \<open>\<^verbatim>\<open>ShapeNetDataset\<close>; the transform pipeline is an external collaborator and is
  not part of \<^verbatim>\<open>get_datum\<close>.\<close>

record ShapeNetDataset =
  file_list :: "descriptor list"

text \<open>The tuple returned by \<^verbatim>\<open>get_datum\<close>.\<close>

record datum =
  taxonomy_name_of :: string
  sample_name_of :: string
  left_rgb_image_of :: ndarray
  right_rgb_image_of :: ndarray
  left_disp_image_of :: ndarray
  right_disp_image_of :: ndarray
  volume_of :: ndarray

text \<open>
  \<^verbatim>\<open>random.choice(range(n))\<close>: raises \<^verbatim>\<open>IndexError\<close> on an empty range and
  otherwise returns an index below \<open>n\<close>.  The argument \<open>r\<close> is the number drawn from the
  process-wide random source; every index below \<open>n\<close> is the result for some \<open>r\<close>.
\<close>

definition random_choice_range :: "nat \<Rightarrow> nat \<Rightarrow> py_error + int" where
  "random_choice_range r n = (if n = 0 then Inl IndexError else Inr (int (r mod n)))"

text \<open>\<^verbatim>\<open>cv2.imread(p, cv2.IMREAD_UNCHANGED).astype(np.float32)\<close>: the method call on
  \<^verbatim>\<open>None\<close> raises \<^verbatim>\<open>AttributeError\<close>.\<close>

definition read_rgb :: "storage \<Rightarrow> path \<Rightarrow> py_error + ndarray" where
  "read_rgb fs p = (case imread fs p of None \<Rightarrow> Inl AttributeError | Some a \<Rightarrow> Inr a)"

text \<open>Dictionary subscript \<^verbatim>\<open>d[k]\<close> on a dictionary kept in key order.\<close>

definition py_getitem :: "(string \<times> 'v) list \<Rightarrow> string \<Rightarrow> py_error + 'v" where
  "py_getitem d k = (case map_of d k of None \<Rightarrow> Inl (KeyError k) | Some v \<Rightarrow> Inr v)"

text \<open>\<^verbatim>\<open>pyexr.open(p).get("Disparity.Z").astype(np.float32)\<close>: the reader raises its
  own exception both for a file it cannot open and for a channel the file does not
  have.\<close>

definition read_disp :: "storage \<Rightarrow> path \<Rightarrow> py_error + ndarray" where
  "read_disp fs p =
     (case exr_open fs p of
        None \<Rightarrow> Inl ExrError
      | Some chans \<Rightarrow>
          (case map_of chans ''Disparity.Z'' of None \<Rightarrow> Inl ExrError | Some a \<Rightarrow> Inr a))"

text \<open>
  The block \<^emph>\<open>Get data of rendering images\<close> of \<^verbatim>\<open>get_datum\<close>: one view index is
  drawn from the length of the left RGB list and used for all four lists.
\<close>

definition read_views ::
  "storage \<Rightarrow> nat \<Rightarrow> descriptor \<Rightarrow> py_error + (ndarray \<times> ndarray \<times> ndarray \<times> ndarray)" where
  "read_views fs r d =
     bind_err (random_choice_range r (length (left_rgb_images d))) (\<lambda>selected_index.
     bind_err (py_index (left_rgb_images d) selected_index) (\<lambda>left_rgb_image_file_path.
     bind_err (py_index (right_rgb_images d) selected_index) (\<lambda>right_rgb_image_file_path.
     bind_err (py_index (left_disp_images d) selected_index) (\<lambda>left_disp_image_file_path.
     bind_err (py_index (right_disp_images d) selected_index) (\<lambda>right_disp_image_file_path.
     bind_err (read_rgb fs left_rgb_image_file_path) (\<lambda>left_rgb_image.
     bind_err (read_rgb fs right_rgb_image_file_path) (\<lambda>right_rgb_image.
     bind_err (read_disp fs left_disp_image_file_path) (\<lambda>left_disp_image.
     bind_err (read_disp fs right_disp_image_file_path) (\<lambda>right_disp_image.
     Inr (left_rgb_image, right_rgb_image, left_disp_image, right_disp_image))))))))))"

text \<open>
  The block \<^emph>\<open>Get data of voxel\<close>: \<^verbatim>\<open>not volume\<close> holds exactly for the empty
  dictionary, and then \<^verbatim>\<open>sys.exit(2)\<close> is called.
\<close>

definition read_volume :: "storage \<Rightarrow> path \<Rightarrow> py_error + ndarray" where
  "read_volume fs volume_path =
     (case loadmat fs volume_path of
        None \<Rightarrow> Inl OSError
      | Some vol \<Rightarrow> if vol = [] then Inl (SystemExit 2) else py_getitem vol ''Volume'')"

definition get_datum :: "ShapeNetDataset \<Rightarrow> storage \<Rightarrow> nat \<Rightarrow> int \<Rightarrow> py_error + datum" where
  "get_datum self fs r idx =
     bind_err (py_index (file_list self) idx) (\<lambda>d.
     bind_err (read_views fs r d) (\<lambda>imgs.
     bind_err (read_volume fs (volume d)) (\<lambda>vol.
     Inr \<lparr> taxonomy_name_of = d_taxonomy_name d,
           sample_name_of = d_sample_name d,
           left_rgb_image_of = fst imgs,
           right_rgb_image_of = fst (snd imgs),
           left_disp_image_of = fst (snd (snd imgs)),
           right_disp_image_of = snd (snd (snd imgs)),
           volume_of = vol \<rparr>)))"

section \<open>core/test.py\<close>

subsection \<open>Floating-point values\<close>

text \<open>
  A finite float is idealised as the real number it stands for: rounding is not
  modelled.  The non-finite values that a division or a mean can produce from finite
  operands are kept apart, so that a division by zero is the IEEE value the code gets and
  not HOL's \<open>x / 0 = 0\<close>.
\<close>

datatype fl = Fin real | PInf | NInf | NaN

text \<open>\<open>x / y\<close> on finite operands.\<close>

definition fdiv :: "real \<Rightarrow> real \<Rightarrow> fl" where
  "fdiv x y =
     (if y \<noteq> 0 then Fin (x / y)
      else if x = 0 then NaN
      else if 0 < x then PInf else NInf)"

text \<open>\<^verbatim>\<open>torch.ge(v, th)\<close> on one entry: a comparison with NaN is false.\<close>

fun fl_ge :: "fl \<Rightarrow> real \<Rightarrow> bool" where
  "fl_ge (Fin x) th = (th \<le> x)"
| "fl_ge PInf th = True"
| "fl_ge NInf th = False"
| "fl_ge NaN th = False"

fun fl_add :: "fl \<Rightarrow> fl \<Rightarrow> fl" where
  "fl_add NaN y = NaN"
| "fl_add x NaN = NaN"
| "fl_add PInf NInf = NaN"
| "fl_add NInf PInf = NaN"
| "fl_add PInf y = PInf"
| "fl_add x PInf = PInf"
| "fl_add NInf y = NInf"
| "fl_add x NInf = NInf"
| "fl_add (Fin x) (Fin y) = Fin (x + y)"

text \<open>An entry times, and divided by, a Python integer that is a count.\<close>

fun fl_mul_nat :: "fl \<Rightarrow> nat \<Rightarrow> fl" where
  "fl_mul_nat (Fin x) n = Fin (x * real n)"
| "fl_mul_nat PInf n = (if n = 0 then NaN else PInf)"
| "fl_mul_nat NInf n = (if n = 0 then NaN else NInf)"
| "fl_mul_nat NaN n = NaN"

fun fl_div_nat :: "fl \<Rightarrow> nat \<Rightarrow> fl" where
  "fl_div_nat (Fin x) n = fdiv x (real n)"
| "fl_div_nat PInf n = PInf"
| "fl_div_nat NInf n = NInf"
| "fl_div_nat NaN n = NaN"

definition fl_sum :: "fl list \<Rightarrow> fl" where
  "fl_sum xs = foldl fl_add (Fin 0) xs"

subsection \<open>Fusing the two volume estimates\<close>

text \<open>
  A volume estimate is a tensor of shape \<open>(B, C, \<dots>)\<close>.  It is represented by the list,
  over the positions \<open>(b, \<dots>)\<close> of all the other axes, of the \<open>C\<close> entries along axis 1.
  The ground-truth volume, of shape \<open>(B, \<dots>)\<close>, is the list of its entries over the same
  positions.  Two tensors have the same shape off axis 1 when they have the same number
  of positions.
\<close>

type_synonym volume_estimate = "real list list"

text \<open>\<^verbatim>\<open>torch.cat((l, r), dim=1)\<close>: the entries of \<open>r\<close> along axis 1 follow those of \<open>l\<close>;
  the other axes must agree.\<close>

definition torch_cat_dim1 :: "volume_estimate \<Rightarrow> volume_estimate \<Rightarrow> py_error + volume_estimate" where
  "torch_cat_dim1 l r =
     (if length l \<noteq> length r then Inl RuntimeError else Inr (map2 (@) l r))"

text \<open>\<^verbatim>\<open>torch.mean(t, dim=1)\<close>: axis 1 is reduced to the mean of its entries.\<close>

definition torch_mean_dim1 :: "volume_estimate \<Rightarrow> fl list" where
  "torch_mean_dim1 t = map (\<lambda>vs. fdiv (sum_list vs) (real (length vs))) t"

definition fuse_volumes :: "volume_estimate \<Rightarrow> volume_estimate \<Rightarrow> py_error + fl list" where
  "fuse_volumes left_generated_volume right_generated_volume =
     bind_err (torch_cat_dim1 left_generated_volume right_generated_volume)
       (\<lambda>generated_volume. Inr (torch_mean_dim1 generated_volume))"

subsection \<open>The disparity loss\<close>

text \<open>
  The statement that computes \<open>disparity_loss\<close> reads three names that \<^verbatim>\<open>test_net\<close>
  never assigns, so Python looks them up among the module's globals when the statement
  runs: \<^verbatim>\<open>mse_loss\<close>, \<^verbatim>\<open>left_depth_images\<close> and \<^verbatim>\<open>right_depth_images\<close>.  The
  bindings of these names are a parameter of the model; an unbound name raises
  \<^verbatim>\<open>NameError\<close>.
\<close>

record module_globals =
  mse_loss :: "(ndarray \<Rightarrow> ndarray \<Rightarrow> real) option"
  left_depth_images :: "ndarray option"
  right_depth_images :: "ndarray option"

text \<open>The module as it is written: it neither imports nor assigns any of the three.\<close>

definition test_py_globals :: module_globals where
  "test_py_globals =
     \<lparr> mse_loss = None, left_depth_images = None, right_depth_images = None \<rparr>"

definition py_name :: "string \<Rightarrow> 'a option \<Rightarrow> py_error + 'a" where
  "py_name name binding = (case binding of None \<Rightarrow> Inl (NameError name) | Some v \<Rightarrow> Inr v)"

text \<open>Python evaluates the left operand of \<open>+\<close> first, and in a call the function name
  before the arguments.\<close>

definition disparity_loss :: "module_globals \<Rightarrow> ndarray \<Rightarrow> ndarray \<Rightarrow> py_error + real" where
  "disparity_loss g left_depth_estimated right_depth_estimated =
     bind_err (py_name ''mse_loss'' (mse_loss g)) (\<lambda>f1.
     bind_err (py_name ''left_depth_images'' (left_depth_images g)) (\<lambda>l.
     bind_err (py_name ''mse_loss'' (mse_loss g)) (\<lambda>f2.
     bind_err (py_name ''right_depth_images'' (right_depth_images g)) (\<lambda>r.
     Inr (f1 left_depth_estimated l + f2 right_depth_estimated r)))))"

subsection \<open>IoU per sample\<close>

text \<open>The body of the loop over \<^verbatim>\<open>cfg.TEST.VOXEL_THRESH\<close>, one definition per
  assignment; \<open>volume_th\<close> is the local \<^verbatim>\<open>_volume\<close>.\<close>

definition volume_th :: "fl list \<Rightarrow> real \<Rightarrow> real list" where
  "volume_th generated_volume th = map (\<lambda>v. if fl_ge v th then 1 else 0) generated_volume"

definition intersection_th :: "fl list \<Rightarrow> real list \<Rightarrow> real \<Rightarrow> real" where
  "intersection_th generated_volume ground_truth_volume th =
     sum_list (map2 (*) (volume_th generated_volume th) ground_truth_volume)"

definition union_th :: "fl list \<Rightarrow> real list \<Rightarrow> real \<Rightarrow> real" where
  "union_th generated_volume ground_truth_volume th =
     real (length (filter (\<lambda>s. 1 \<le> s)
       (map2 (+) (volume_th generated_volume th) ground_truth_volume)))"

definition iou_th :: "fl list \<Rightarrow> real list \<Rightarrow> real \<Rightarrow> fl" where
  "iou_th generated_volume ground_truth_volume th =
     fdiv (intersection_th generated_volume ground_truth_volume th)
          (union_th generated_volume ground_truth_volume th)"

definition sample_iou_of :: "real list \<Rightarrow> fl list \<Rightarrow> real list \<Rightarrow> fl list" where
  "sample_iou_of VOXEL_THRESH generated_volume ground_truth_volume =
     map (iou_th generated_volume ground_truth_volume) VOXEL_THRESH"

subsection \<open>IoU per taxonomy\<close>

text \<open>
  A taxonomy identifier as the loop uses it: \<^verbatim>\<open>taxonomy_id[0]\<close> when that is a
  string, and otherwise the number held by \<^verbatim>\<open>taxonomy_id[0].item()\<close>.
\<close>

datatype py_key = PyStr string | PyNum int

record bucket =
  n_samples :: nat
  iou :: "fl list list"

text \<open>
  \<open>test_iou\<close> is a Python dictionary: its keys are distinct and are iterated in the
  order of their first insertion.  It is kept as the list of its items in that order.
\<close>

type_synonym 'v py_dict = "(py_key \<times> 'v) list"

definition py_in :: "py_key \<Rightarrow> 'v py_dict \<Rightarrow> bool" where
  "py_in k d = (map_of d k \<noteq> None)"

text \<open>\<^verbatim>\<open>d[k] = v\<close>: an existing key keeps its place, a new key goes last.\<close>

fun py_setitem :: "'v py_dict \<Rightarrow> py_key \<Rightarrow> 'v \<Rightarrow> 'v py_dict" where
  "py_setitem [] k v = [(k, v)]"
| "py_setitem ((k', v') # d) k v =
     (if k' = k then (k, v) # d else (k', v') # py_setitem d k v)"

text \<open>An in-place change of the object stored under a key that is present, as in
  \<^verbatim>\<open>d[k]['n_samples'] += 1\<close>.\<close>

fun py_modify :: "'v py_dict \<Rightarrow> py_key \<Rightarrow> ('v \<Rightarrow> 'v) \<Rightarrow> 'v py_dict" where
  "py_modify [] k f = []"
| "py_modify ((k', v') # d) k f =
     (if k' = k then (k', f v') # d else (k', v') # py_modify d k f)"

text \<open>The three statements under \<^emph>\<open>IoU per taxonomy\<close>, on the dictionary \<open>d\<close>
  (\<open>test_iou\<close>) and the key \<open>key\<close> (\<open>taxonomy_id\<close>).\<close>

definition record_iou :: "bucket py_dict \<Rightarrow> py_key \<Rightarrow> fl list \<Rightarrow> bucket py_dict" where
  "record_iou d key sample_iou =
     (let d1 = (if \<not> py_in key d
                then py_setitem d key \<lparr> n_samples = 0, iou = [] \<rparr>
                else d);
          d2 = py_modify d1 key (\<lambda>b. b\<lparr> n_samples := n_samples b + 1 \<rparr>);
          d3 = py_modify d2 key (\<lambda>b. b\<lparr> iou := iou b @ [sample_iou] \<rparr>)
      in d3)"

subsection \<open>The testing loop\<close>

text \<open>
  Modelled from the spec: \<^verbatim>\<open>utils.network_utils.AverageMeter\<close>, whose code is not
  among the sources.  The spec describes a simple cumulative mean updated one sample at
  a time that exposes the running average and the running sample count.
\<close>

record AverageMeter =
  meter_sum :: real
  meter_count :: nat

definition meter_update :: "AverageMeter \<Rightarrow> real \<Rightarrow> AverageMeter" where
  "meter_update m v = \<lparr> meter_sum = meter_sum m + v, meter_count = meter_count m + 1 \<rparr>"

definition meter_avg :: "AverageMeter \<Rightarrow> fl" where
  "meter_avg m = fdiv (meter_sum m) (real (meter_count m))"

text \<open>One item of the data loader, after the first two statements of the loop body.\<close>

record batch =
  b_taxonomy_id :: py_key
  b_sample_name :: string
  left_rgb_image :: ndarray
  right_rgb_image :: ndarray
  left_depth_image :: ndarray
  right_depth_image :: ndarray
  ground_truth_volume :: "real list"

text \<open>
  The two networks are opaque functions.  \<open>dispnet\<close> maps the two RGB images to the two
  estimated disparities; \<open>recnet\<close> maps an RGB image with its estimated disparity (the
  pair stands for their concatenation along the channel axis) to a volume estimate.
\<close>

record networks =
  dispnet :: "ndarray \<Rightarrow> ndarray \<Rightarrow> ndarray \<times> ndarray"
  recnet :: "ndarray \<times> ndarray \<Rightarrow> volume_estimate"

text \<open>
  \<^verbatim>\<open>torch.nn.BCELoss()\<close>: it raises \<^verbatim>\<open>ValueError\<close> when input and target differ in
  size; its value (or the exception it raises for another reason) is the parameter
  \<open>bce\<close>.
\<close>

definition bce_loss ::
  "(fl list \<Rightarrow> real list \<Rightarrow> py_error + real) \<Rightarrow> fl list \<Rightarrow> real list \<Rightarrow> py_error + real" where
  "bce_loss bce generated_volume gt =
     (if length generated_volume \<noteq> length gt then Inl ValueError
      else bce generated_volume gt)"

datatype SummaryWriter = SummaryWriter

record test_args =
  output_dir :: "(string \<Rightarrow> py_error + string) option"
  test_writer :: "SummaryWriter option"

text \<open>
  The block \<^emph>\<open>Append generated volumes to TensorBoard\<close>.  The argument
  \<^verbatim>\<open>output_dir\<close> is \<^verbatim>\<open>None\<close> or a format string; a format string is taken as the
  function from the right operand of \<^verbatim>\<open>%\<close> to the formatted string, or to the
  exception the formatting raises (\<^verbatim>\<open>TypeError\<close> unless the string has exactly one
  conversion specifier, and that one accepts a string).  \<^verbatim>\<open>output_dir % 'images'\<close>
  raises \<^verbatim>\<open>TypeError\<close> and \<^verbatim>\<open>test_writer.add_image\<close> raises
  \<^verbatim>\<open>AttributeError\<close> when the argument is \<^verbatim>\<open>None\<close>.  What is sent to the writer
  and to the renderer is outside the model.
\<close>

definition visualize :: "test_args \<Rightarrow> nat \<Rightarrow> py_error + unit" where
  "visualize args sample_idx =
     (if sample_idx < 3 then
        (case output_dir args of
           None \<Rightarrow> Inl TypeError
         | Some fmt \<Rightarrow>
             bind_err (fmt ''images'') (\<lambda>img_dir.
               case test_writer args of None \<Rightarrow> Inl AttributeError | Some w \<Rightarrow> Inr ()))
      else Inr ())"

record test_state =
  test_iou :: "bucket py_dict"
  disparity_losses :: AverageMeter
  voxel_losses :: AverageMeter

definition initial_state :: test_state where
  "initial_state =
     \<lparr> test_iou = [],
       disparity_losses = \<lparr> meter_sum = 0, meter_count = 0 \<rparr>,
       voxel_losses = \<lparr> meter_sum = 0, meter_count = 0 \<rparr> \<rparr>"

text \<open>The parameters of a run that stay fixed over the loop.\<close>

record run =
  VOXEL_THRESH :: "real list"
  globals :: module_globals
  nets :: networks
  bce :: "fl list \<Rightarrow> real list \<Rightarrow> py_error + real"
  args :: test_args

text \<open>The body of the testing loop (printing left out).\<close>

definition test_step :: "run \<Rightarrow> nat \<Rightarrow> test_state \<Rightarrow> batch \<Rightarrow> py_error + test_state" where
  "test_step c sample_idx st b =
     (let taxonomy_id = b_taxonomy_id b;
          est = dispnet (nets c) (left_rgb_image b) (right_rgb_image b);
          left_depth_estimated = fst est;
          right_depth_estimated = snd est;
          left_generated_volume = recnet (nets c) (left_rgb_image b, left_depth_estimated);
          right_generated_volume = recnet (nets c) (right_rgb_image b, right_depth_estimated)
      in
      bind_err (fuse_volumes left_generated_volume right_generated_volume) (\<lambda>generated_volume.
      bind_err (disparity_loss (globals c) left_depth_estimated right_depth_estimated)
        (\<lambda>disparity_loss.
      bind_err (bce_loss (bce c) generated_volume (ground_truth_volume b)) (\<lambda>voxel_loss.
      let sample_iou = sample_iou_of (VOXEL_THRESH c) generated_volume (ground_truth_volume b);
          st' = \<lparr> test_iou = record_iou (test_iou st) taxonomy_id sample_iou,
                  disparity_losses = meter_update (disparity_losses st) disparity_loss,
                  voxel_losses = meter_update (voxel_losses st) voxel_loss \<rparr>
      in bind_err (visualize (args c) sample_idx) (\<lambda>u. Inr st')))))"

text \<open>\<^verbatim>\<open>for sample_idx, (\<dots>) in enumerate(test_data_loader)\<close>.\<close>

fun test_loop :: "run \<Rightarrow> nat \<Rightarrow> test_state \<Rightarrow> batch list \<Rightarrow> py_error + test_state" where
  "test_loop c sample_idx st [] = Inr st"
| "test_loop c sample_idx st (b # bs) =
     bind_err (test_step c sample_idx st b) (\<lambda>st'. test_loop c (Suc sample_idx) st' bs)"

subsection \<open>Output testing results\<close>

text \<open>What a numpy reduction returns here: a scalar or a one-dimensional array.\<close>

datatype np_value = Scalar fl | Array1 "fl list"

text \<open>
  \<^verbatim>\<open>np.mean(rows, axis=0)\<close> on a list of lists of floats: the mean of an empty list
  is the scalar NaN, rows of one length give the array of the column means (the column
  sum divided by the number of rows), rows of different lengths are rejected.
\<close>

definition column :: "fl list list \<Rightarrow> nat \<Rightarrow> fl list" where
  "column rows j = map (\<lambda>r. r ! j) rows"

definition np_mean_axis0 :: "fl list list \<Rightarrow> py_error + np_value" where
  "np_mean_axis0 rows =
     (case rows of
        [] \<Rightarrow> Inr (Scalar NaN)
      | r # rs \<Rightarrow>
          if list_all (\<lambda>r'. length r' = length r) rs
          then Inr (Array1 (map (\<lambda>j. fl_div_nat (fl_sum (column rows j)) (length rows))
                              [0..<length r]))
          else Inl ValueError)"

text \<open>\<open>a * n\<close> and \<open>a / n\<close> for a count \<open>n\<close>.\<close>

fun np_mul :: "np_value \<Rightarrow> nat \<Rightarrow> np_value" where
  "np_mul (Scalar x) n = Scalar (fl_mul_nat x n)"
| "np_mul (Array1 xs) n = Array1 (map (\<lambda>x. fl_mul_nat x n) xs)"

fun np_div :: "np_value \<Rightarrow> nat \<Rightarrow> np_value" where
  "np_div (Scalar x) n = Scalar (fl_div_nat x n)"
| "np_div (Array1 xs) n = Array1 (map (\<lambda>x. fl_div_nat x n) xs)"

text \<open>
  \<^verbatim>\<open>np.sum(vs, axis=0)\<close> on a list of such values: the sum of an empty list is the
  scalar 0, scalars are added up, arrays of one length are added up column by column,
  anything else is rejected.
\<close>

fun scalar_of :: "np_value \<Rightarrow> fl option" where
  "scalar_of (Scalar x) = Some x"
| "scalar_of (Array1 xs) = None"

fun array_of :: "np_value \<Rightarrow> fl list option" where
  "array_of (Scalar x) = None"
| "array_of (Array1 xs) = Some xs"

definition np_sum_axis0 :: "np_value list \<Rightarrow> py_error + np_value" where
  "np_sum_axis0 vs =
     (case vs of
        [] \<Rightarrow> Inr (Scalar (Fin 0))
      | Scalar x # ws \<Rightarrow>
          if list_all (\<lambda>w. scalar_of w \<noteq> None) ws
          then Inr (Scalar (fl_sum (x # map (\<lambda>w. the (scalar_of w)) ws)))
          else Inl ValueError
      | Array1 xs # ws \<Rightarrow>
          if list_all (\<lambda>w. map_option length (array_of w) = Some (length xs)) ws
          then Inr (Array1 (map (\<lambda>j. fl_sum (column (xs # map (\<lambda>w. the (array_of w)) ws) j))
                              [0..<length xs]))
          else Inl ValueError)"

text \<open>
  The loop over \<open>test_iou\<close>: the list under \<^verbatim>\<open>'iou'\<close> is replaced by its mean, and the
  mean times the sample count is appended to \<open>mean_iou\<close>.  The result is the dictionary
  after the loop (sample count and mean per taxonomy) and the list \<open>mean_iou\<close>.
  In \<open>output_results\<close>, \<open>d\<close> is \<open>test_iou\<close> and \<open>n\<close> is \<open>n_samples\<close>.
\<close>

fun taxonomy_means ::
  "bucket py_dict \<Rightarrow> py_error + ((nat \<times> np_value) py_dict \<times> np_value list)" where
  "taxonomy_means [] = Inr ([], [])"
| "taxonomy_means ((key, b) # d) =
     bind_err (np_mean_axis0 (iou b)) (\<lambda>m.
     bind_err (taxonomy_means d) (\<lambda>rest.
     Inr ((key, (n_samples b, m)) # fst rest, np_mul m (n_samples b) # snd rest)))"

record report =
  per_taxonomy :: "(nat \<times> np_value) py_dict"
  mean_iou :: np_value

definition output_results :: "bucket py_dict \<Rightarrow> nat \<Rightarrow> py_error + report" where
  "output_results d n =
     bind_err (taxonomy_means d) (\<lambda>r.
     bind_err (np_sum_axis0 (snd r)) (\<lambda>total.
     Inr \<lparr> per_taxonomy = fst r, mean_iou = np_div total n \<rparr>))"

text \<open>
  \<^verbatim>\<open>test_net\<close> from \<^emph>\<open>Testing loop\<close> down to the computation of \<open>mean_iou\<close>:
  \<open>n_samples\<close> is the length of the data loader, read before the loop.
\<close>

definition evaluation_pass :: "run \<Rightarrow> batch list \<Rightarrow> py_error + report" where
  "evaluation_pass c test_data_loader =
     (let n_samples = length test_data_loader in
      bind_err (test_loop c 0 initial_state test_data_loader) (\<lambda>st.
      output_results (test_iou st) n_samples))"

section \<open>The quantities the specification names\<close>

text \<open>
  The metric accumulator as the specification words it: the fused volume is made binary
  at the threshold (a value of at least \<open>\<tau>\<close> becomes 1, any other value 0), the
  intersection is the number of positions where the binary prediction and the ground
  truth are both 1 (the sum of their elementwise AND), the union is the number of
  positions where binary prediction plus ground truth is at least 1, and the IoU is the
  first divided by the second.
\<close>

definition spec_binarize :: "real \<Rightarrow> fl \<Rightarrow> nat" where
  "spec_binarize \<tau> v = (if fl_ge v \<tau> then 1 else 0)"

definition spec_intersection :: "fl list \<Rightarrow> real list \<Rightarrow> real \<Rightarrow> nat" where
  "spec_intersection fused gt \<tau> =
     length (filter (\<lambda>(p, g). p = 1 \<and> g = 1) (zip (map (spec_binarize \<tau>) fused) gt))"

definition spec_union :: "fl list \<Rightarrow> real list \<Rightarrow> real \<Rightarrow> nat" where
  "spec_union fused gt \<tau> =
     length (filter (\<lambda>(p, g). 1 \<le> real p + g) (zip (map (spec_binarize \<tau>) fused) gt))"

definition spec_iou :: "fl list \<Rightarrow> real list \<Rightarrow> real \<Rightarrow> fl" where
  "spec_iou fused gt \<tau> =
     fdiv (real (spec_intersection fused gt \<tau>)) (real (spec_union fused gt \<tau>))"

text \<open>
  The fusion as the specification words it: the two volume estimates are stacked along
  a new axis and that axis is reduced to its mean, so each entry of the result is the
  mean of the two corresponding entries.  The result has the shape of the estimates.
\<close>

definition stacked_mean :: "volume_estimate \<Rightarrow> volume_estimate \<Rightarrow> fl list list" where
  "stacked_mean l r = map2 (map2 (\<lambda>a b. fdiv (sum_list [a, b]) (real (length [a, b])))) l r"

text \<open>
  The report aggregator as the specification words it.  The mean vector of a list of
  vectors of one width is taken column by column over the vectors.  The overall vector is
  the sum over the taxonomies of mean vector times sample count, divided by the total of
  the sample counts.
\<close>

definition elementwise_mean :: "nat \<Rightarrow> fl list list \<Rightarrow> fl list" where
  "elementwise_mean width rows =
     map (\<lambda>j. fl_div_nat (fl_sum (map (\<lambda>r. r ! j) rows)) (length rows)) [0..<width]"

definition weighted_average :: "nat \<Rightarrow> (fl list \<times> nat) list \<Rightarrow> fl list" where
  "weighted_average width ms =
     map (\<lambda>j. fl_div_nat (fl_sum (map (\<lambda>(m, cnt). fl_mul_nat (m ! j) cnt) ms))
                         (sum_list (map snd ms)))
         [0..<width]"

section \<open>Invariants of the testing loop\<close>

text \<open>
  A bucket is well formed for a width when its sample count is the number of its
  vectors, it has at least one vector, and all its vectors have that width.
\<close>

definition bucket_ok :: "nat \<Rightarrow> bucket \<Rightarrow> bool" where
  "bucket_ok width b =
     (n_samples b = length (iou b) \<and> iou b \<noteq> [] \<and> list_all (\<lambda>v. length v = width) (iou b))"

definition buckets_ok :: "nat \<Rightarrow> bucket py_dict \<Rightarrow> bool" where
  "buckets_ok width d = list_all (\<lambda>kb. bucket_ok width (snd kb)) d"

definition total_samples :: "bucket py_dict \<Rightarrow> nat" where
  "total_samples d = sum_list (map (\<lambda>kb. n_samples (snd kb)) d)"

text \<open>
  The sample count stored under a key, \<open>0\<close> for a key that is absent.
\<close>

definition count_of :: "bucket py_dict \<Rightarrow> py_key \<Rightarrow> nat" where
  "count_of d k = (case map_of d k of None \<Rightarrow> 0 | Some b \<Rightarrow> n_samples b)"

section \<open>Example inputs\<close>

text \<open>
  A small data set and a small evaluation run on which the theorems below are
  evaluated.
\<close>

definition example_template :: "string \<Rightarrow> string \<Rightarrow> string \<Rightarrow> int \<Rightarrow> path" where
  "example_template folder t s i = folder @ ''/'' @ t @ ''/'' @ s @ ''/'' @ replicate (nat i) (CHR ''i'')"

definition example_loader :: ShapeNetDataLoader where
  "example_loader =
     \<lparr> dataset_taxonomy =
         [\<lparr> taxonomy_id = ''A'', taxonomy_name = ''chair'',
            train = [], test = [''s1'', ''s2''], val = [] \<rparr>,
          \<lparr> taxonomy_id = ''B'', taxonomy_name = ''table'',
            train = [''s3''], test = [], val = [] \<rparr>],
       left_rgb_image_path_template = example_template ''left'',
       right_rgb_image_path_template = example_template ''right'',
       left_disp_image_path_template = example_template ''ldisp'',
       right_disp_image_path_template = example_template ''rdisp'',
       volume_path_template = (\<lambda>t s. ''vol/'' @ t @ ''/'' @ s) \<rparr>"

definition example_storage :: "(string \<times> ndarray) list \<Rightarrow> storage" where
  "example_storage container =
     \<lparr> path_exists = (\<lambda>p. p = ''vol/A/s1''),
       imread = (\<lambda>p. Some [1]),
       exr_open = (\<lambda>p. Some [(''Disparity.Z'', [2])]),
       loadmat = (\<lambda>p. Some container) \<rparr>"

definition example_dataset :: ShapeNetDataset where
  "example_dataset =
     \<lparr> file_list = fst (get_dataset example_loader (example_storage []) TEST 2) \<rparr>"

text \<open>
  A storage in which every file of the sample \<open>A/s1\<close> has its own content: the files of
  view 0 hold \<open>1\<close>, \<open>2\<close>, \<open>3\<close>, \<open>4\<close> and the files of view 1 hold \<open>11\<close>, \<open>12\<close>, \<open>13\<close>,
  \<open>14\<close> (left RGB, right RGB, left disparity, right disparity).  No other file can be
  read.  The volume container has its three header fields and the field \<open>Volume\<close>.
\<close>

definition view_storage :: storage where
  "view_storage =
     \<lparr> path_exists = (\<lambda>p. p = ''vol/A/s1''),
       imread = (\<lambda>p. if p = ''left/A/s1/'' then Some [1]
                     else if p = ''right/A/s1/'' then Some [2]
                     else if p = ''left/A/s1/i'' then Some [11]
                     else if p = ''right/A/s1/i'' then Some [12]
                     else None),
       exr_open = (\<lambda>p. if p = ''ldisp/A/s1/'' then Some [(''Disparity.Z'', [3])]
                       else if p = ''rdisp/A/s1/'' then Some [(''Disparity.Z'', [4])]
                       else if p = ''ldisp/A/s1/i'' then Some [(''Disparity.Z'', [13])]
                       else if p = ''rdisp/A/s1/i'' then Some [(''Disparity.Z'', [14])]
                       else None),
       loadmat = (\<lambda>p. Some [(''__header__'', []), (''__version__'', []), (''__globals__'', []),
                             (''Volume'', [0, 1])]) \<rparr>"


text \<open>
  A binding for the three names that the disparity-loss statement reads, networks that
  return their left input one entry per position, and three samples whose IoU vectors at
  the thresholds \<open>0.5\<close> and \<open>0.3\<close> are \<open>[0.5, 0.6]\<close> and \<open>[0.7, 0.8]\<close> for taxonomy
  \<open>A\<close> and \<open>[0.2, 0.3]\<close> for taxonomy \<open>B\<close>.
\<close>

definition squared_error_sum :: "ndarray \<Rightarrow> ndarray \<Rightarrow> real" where
  "squared_error_sum a b = sum_list (map2 (\<lambda>x y. (x - y) * (x - y)) a b)"

definition bound_globals :: module_globals where
  "bound_globals =
     \<lparr> mse_loss = Some squared_error_sum, left_depth_images = Some [],
       right_depth_images = Some [] \<rparr>"

definition example_nets :: networks where
  "example_nets = \<lparr> dispnet = (\<lambda>l r. (l, r)), recnet = (\<lambda>rgbd. map (\<lambda>x. [x]) (fst rgbd)) \<rparr>"

text \<open>The format string \<^verbatim>\<open>'out/%s'\<close> as the function of its argument.\<close>

definition example_args :: test_args where
  "example_args =
     \<lparr> output_dir = Some (\<lambda>a. Inr (''out/'' @ a)), test_writer = Some SummaryWriter \<rparr>"

definition example_run :: "module_globals \<Rightarrow> run" where
  "example_run g =
     \<lparr> VOXEL_THRESH = [1 / 2, 3 / 10], globals = g, nets = example_nets,
       bce = (\<lambda>generated gt. Inr 0), args = example_args \<rparr>"

definition example_batch :: "string \<Rightarrow> real list \<Rightarrow> real list \<Rightarrow> batch" where
  "example_batch t generated gt =
     \<lparr> b_taxonomy_id = PyStr t, b_sample_name = ''s'',
       left_rgb_image = generated, right_rgb_image = generated,
       left_depth_image = [], right_depth_image = [], ground_truth_volume = gt \<rparr>"

definition volume_a1 :: "real list" where
  "volume_a1 = [9 / 10, 9 / 10, 2 / 5, 1 / 10, 2 / 5]"

definition truth_a1 :: "real list" where
  "truth_a1 = [1, 1, 1, 1, 0]"

definition volume_a2 :: "real list" where
  "volume_a2 = [9 / 10, 9 / 10, 9 / 10, 9 / 10, 9 / 10, 9 / 10, 9 / 10, 2 / 5, 1 / 10, 1 / 10]"

definition volume_b1 :: "real list" where
  "volume_b1 = [9 / 10, 9 / 10, 2 / 5, 1 / 10, 1 / 10, 1 / 10, 1 / 10, 1 / 10, 1 / 10, 1 / 10]"

definition truth_full :: "real list" where
  "truth_full = [1, 1, 1, 1, 1, 1, 1, 1, 1, 1]"

definition example_test_data :: "batch list" where
  "example_test_data =
     [example_batch ''A'' volume_a1 truth_a1, example_batch ''A'' volume_a2 truth_full,
      example_batch ''B'' volume_b1 truth_full]"

definition equal_counts_data :: "batch list" where
  "equal_counts_data =
     [example_batch ''A'' volume_a1 truth_a1, example_batch ''B'' volume_b1 truth_full]"

section \<open>Properties of the data loaders\<close>

subsection \<open>The index builder as a filter\<close>

lemma sample_step_foldl:
  "foldl (sample_step self fs tax n) acc samples =
     (fst acc @ map (files_of_sample self tax n)
                  (filter (\<lambda>s. path_exists fs (volume_path_template self tax s)) samples),
      snd acc @ map (Pair tax)
                  (filter (\<lambda>s. \<not> path_exists fs (volume_path_template self tax s)) samples))"
  by (induction samples arbitrary: acc) (simp_all add: sample_step_def Let_def)

lemma get_files_of_taxonomy_eq:
  "get_files_of_taxonomy self fs tax samples n =
     (map (files_of_sample self tax n)
        (filter (\<lambda>s. path_exists fs (volume_path_template self tax s)) samples),
      map (Pair tax)
        (filter (\<lambda>s. \<not> path_exists fs (volume_path_template self tax s)) samples))"
  by (simp add: get_files_of_taxonomy_def sample_step_foldl)

lemma taxonomy_step_foldl:
  "foldl (taxonomy_step self fs ty n) acc ts =
     (fst acc @ concat (map (\<lambda>t. fst (get_files_of_taxonomy self fs (taxonomy_id t)
                                       (split_samples ty t) n)) ts),
      snd acc @ concat (map (\<lambda>t. snd (get_files_of_taxonomy self fs (taxonomy_id t)
                                       (split_samples ty t) n)) ts))"
  by (induction ts arbitrary: acc) (simp_all add: taxonomy_step_def Let_def)

lemma files_of_sample_names [simp]:
  "d_taxonomy_name (files_of_sample self tax n s) = tax"
  "d_sample_name (files_of_sample self tax n s) = s"
  by (simp_all add: files_of_sample_def Let_def)

text \<open>
  Claim C4.  For a taxonomy folder and the sample names of the selected split, the index
  builder returns the descriptors of exactly those samples whose volume path exists on
  the storage backend, in the order of the split list; every other sample is reported
  in a warning and skipped, and the samples after it are still processed.  A sample name
  of the split has a descriptor in the result if and only if its volume path exists.
  \<open>get_dataset\<close> appends the results of all taxonomies in manifest order.  A taxonomy
  none of whose volume paths exists contributes the empty list; the builder has no
  failing branch.
\<close>

theorem index_builder_keeps_exactly_existing_volumes:
  "fst (get_files_of_taxonomy self fs tax samples n) =
     map (files_of_sample self tax n)
       (filter (\<lambda>s. path_exists fs (volume_path_template self tax s)) samples)
   \<and> snd (get_files_of_taxonomy self fs tax samples n) =
     map (Pair tax)
       (filter (\<lambda>s. \<not> path_exists fs (volume_path_template self tax s)) samples)
   \<and> (\<forall>s \<in> set samples.
        (\<exists>d \<in> set (fst (get_files_of_taxonomy self fs tax samples n)).
            d_taxonomy_name d = tax \<and> d_sample_name d = s)
        \<longleftrightarrow> path_exists fs (volume_path_template self tax s))
   \<and> fst (get_dataset self fs ty n) =
     concat (map (\<lambda>t. fst (get_files_of_taxonomy self fs (taxonomy_id t) (split_samples ty t) n))
                 (dataset_taxonomy self))
   \<and> ((\<forall>s \<in> set samples. \<not> path_exists fs (volume_path_template self tax s))
        \<longrightarrow> fst (get_files_of_taxonomy self fs tax samples n) = [])"
proof (intro conjI ballI impI)
  show "fst (get_files_of_taxonomy self fs tax samples n) =
     map (files_of_sample self tax n)
       (filter (\<lambda>s. path_exists fs (volume_path_template self tax s)) samples)"
    by (simp add: get_files_of_taxonomy_eq)
  show "snd (get_files_of_taxonomy self fs tax samples n) =
     map (Pair tax)
       (filter (\<lambda>s. \<not> path_exists fs (volume_path_template self tax s)) samples)"
    by (simp add: get_files_of_taxonomy_eq)
  show "fst (get_dataset self fs ty n) =
     concat (map (\<lambda>t. fst (get_files_of_taxonomy self fs (taxonomy_id t) (split_samples ty t) n))
                 (dataset_taxonomy self))"
    by (simp add: get_dataset_def taxonomy_step_foldl)
  show "fst (get_files_of_taxonomy self fs tax samples n) = []"
    if "\<forall>s \<in> set samples. \<not> path_exists fs (volume_path_template self tax s)"
    using that by (simp add: get_files_of_taxonomy_eq filter_empty_conv)
next
  fix s assume "s \<in> set samples"
  then show "(\<exists>d \<in> set (fst (get_files_of_taxonomy self fs tax samples n)).
            d_taxonomy_name d = tax \<and> d_sample_name d = s)
        \<longleftrightarrow> path_exists fs (volume_path_template self tax s)"
    by (auto simp add: get_files_of_taxonomy_eq)
qed

subsection \<open>The view lists of a built descriptor\<close>

lemma length_py_range: "length (py_range n) = nat n"
  by (simp add: py_range_def)

lemma py_index_nth: "0 \<le> k \<Longrightarrow> nat k < length xs \<Longrightarrow> py_index xs k = Inr (xs ! nat k)"
  by (simp add: py_index_def Let_def)

lemma py_range_nth: "0 \<le> k \<Longrightarrow> k < n \<Longrightarrow> py_range n ! nat k = k"
  by (simp add: py_range_def)

lemma py_index_map_range:
  "0 \<le> k \<Longrightarrow> k < n \<Longrightarrow> py_index (map f (py_range n)) k = Inr (f k)"
  by (simp add: py_index_nth length_py_range py_range_nth)

lemma bind_err_eq_Inr: "bind_err x f = Inr y \<longleftrightarrow> (\<exists>v. x = Inr v \<and> f v = Inr y)"
  by (cases x) simp_all

lemma bind_err_eq_Inl: "bind_err x f = Inl e \<longleftrightarrow> x = Inl e \<or> (\<exists>v. x = Inr v \<and> f v = Inl e)"
  by (cases x) simp_all

lemma read_rgb_no_index_error: "read_rgb fs p \<noteq> Inl IndexError"
  by (simp add: read_rgb_def split: option.splits)

lemma read_disp_no_index_error: "read_disp fs p \<noteq> Inl IndexError"
  by (simp add: read_disp_def split: option.splits)

lemma read_volume_no_index_error: "read_volume fs p \<noteq> Inl IndexError"
  by (simp add: read_volume_def py_getitem_def split: option.splits)

text \<open>
  Claim C10.  A descriptor built by the index builder with view count \<open>n \<ge> 1\<close> has four
  per-view path lists of length exactly \<open>n\<close>.  Whatever number \<open>r\<close> the random source
  yields, the view index \<open>k\<close> drawn by the loader from the length of the left RGB list is
  a valid index into all four lists, and the four selected paths are the four templates
  filled in with the descriptor's taxonomy, its sample name and that same \<open>k\<close>.  The
  loader reads exactly these four files, in the order left RGB, right RGB, left
  disparity, right disparity, and \<open>get_datum\<close> on a data set that holds the descriptor
  at \<open>idx\<close> returns what these reads and the read of the volume give; it never raises
  \<open>IndexError\<close>.
\<close>

theorem built_descriptor_view_lists:
  assumes d: "d \<in> set (fst (get_files_of_taxonomy self fs tax samples n))"
      and n: "1 \<le> n"
  shows "length (left_rgb_images d) = nat n \<and> length (right_rgb_images d) = nat n
       \<and> length (left_disp_images d) = nat n \<and> length (right_disp_images d) = nat n
       \<and> (\<exists>k. random_choice_range r (length (left_rgb_images d)) = Inr k \<and> 0 \<le> k \<and> k < n
            \<and> py_index (left_rgb_images d) k
                = Inr (left_rgb_image_path_template self tax (d_sample_name d) k)
            \<and> py_index (right_rgb_images d) k
                = Inr (right_rgb_image_path_template self tax (d_sample_name d) k)
            \<and> py_index (left_disp_images d) k
                = Inr (left_disp_image_path_template self tax (d_sample_name d) k)
            \<and> py_index (right_disp_images d) k
                = Inr (right_disp_image_path_template self tax (d_sample_name d) k)
            \<and> read_views fs' r d =
                bind_err (read_rgb fs' (left_rgb_image_path_template self tax (d_sample_name d) k))
                  (\<lambda>left_rgb_image.
                bind_err (read_rgb fs' (right_rgb_image_path_template self tax (d_sample_name d) k))
                  (\<lambda>right_rgb_image.
                bind_err (read_disp fs' (left_disp_image_path_template self tax (d_sample_name d) k))
                  (\<lambda>left_disp_image.
                bind_err (read_disp fs' (right_disp_image_path_template self tax (d_sample_name d) k))
                  (\<lambda>right_disp_image.
                Inr (left_rgb_image, right_rgb_image, left_disp_image, right_disp_image))))))
       \<and> read_views fs' r d \<noteq> Inl IndexError
       \<and> (\<forall>ds idx. py_index (file_list ds) idx = Inr d \<longrightarrow>
            get_datum ds fs' r idx \<noteq> Inl IndexError
          \<and> get_datum ds fs' r idx =
              bind_err (read_views fs' r d) (\<lambda>imgs.
              bind_err (read_volume fs' (volume_path_template self tax (d_sample_name d))) (\<lambda>vol.
              Inr \<lparr> taxonomy_name_of = tax,
                    sample_name_of = d_sample_name d,
                    left_rgb_image_of = fst imgs,
                    right_rgb_image_of = fst (snd imgs),
                    left_disp_image_of = fst (snd (snd imgs)),
                    right_disp_image_of = snd (snd (snd imgs)),
                    volume_of = vol \<rparr>)))"
proof -
  from d obtain s where ds: "d = files_of_sample self tax n s"
    by (auto simp add: get_files_of_taxonomy_eq)
  have len: "length (left_rgb_images d) = nat n" "length (right_rgb_images d) = nat n"
       "length (left_disp_images d) = nat n" "length (right_disp_images d) = nat n"
    by (simp_all add: ds files_of_sample_def Let_def length_py_range)
  define k where "k = int (r mod nat n)"
  have "r mod nat n < nat n" using n by simp
  then have "int (r mod nat n) < int (nat n)" by (simp only: of_nat_less_iff)
  then have kn: "k < n" using n by (simp add: k_def)
  have k0: "0 \<le> k" by (simp add: k_def)
  note k = k0 kn
  have ch: "random_choice_range r (length (left_rgb_images d)) = Inr k"
    using n by (simp add: len random_choice_range_def k_def)
  have sel: "py_index (left_rgb_images d) k
                = Inr (left_rgb_image_path_template self tax (d_sample_name d) k)"
       "py_index (right_rgb_images d) k
                = Inr (right_rgb_image_path_template self tax (d_sample_name d) k)"
       "py_index (left_disp_images d) k
                = Inr (left_disp_image_path_template self tax (d_sample_name d) k)"
       "py_index (right_disp_images d) k
                = Inr (right_disp_image_path_template self tax (d_sample_name d) k)"
    using k by (simp_all add: ds files_of_sample_def Let_def py_index_map_range)
  have rv: "read_views fs' r d =
                bind_err (read_rgb fs' (left_rgb_image_path_template self tax (d_sample_name d) k))
                  (\<lambda>left_rgb_image.
                bind_err (read_rgb fs' (right_rgb_image_path_template self tax (d_sample_name d) k))
                  (\<lambda>right_rgb_image.
                bind_err (read_disp fs' (left_disp_image_path_template self tax (d_sample_name d) k))
                  (\<lambda>left_disp_image.
                bind_err (read_disp fs' (right_disp_image_path_template self tax (d_sample_name d) k))
                  (\<lambda>right_disp_image.
                Inr (left_rgb_image, right_rgb_image, left_disp_image, right_disp_image)))))"
    by (simp only: read_views_def ch sel bind_err.simps)
  have rv_ok: "read_views fs' r d \<noteq> Inl IndexError"
    unfolding rv
    by (auto simp add: bind_err_eq_Inl read_rgb_no_index_error read_disp_no_index_error)
  have names: "d_taxonomy_name d = tax" "volume d = volume_path_template self tax (d_sample_name d)"
    by (simp_all add: ds files_of_sample_def Let_def)
  have gd: "get_datum ds fs' r idx \<noteq> Inl IndexError
          \<and> get_datum ds fs' r idx =
              bind_err (read_views fs' r d) (\<lambda>imgs.
              bind_err (read_volume fs' (volume_path_template self tax (d_sample_name d))) (\<lambda>vol.
              Inr \<lparr> taxonomy_name_of = tax,
                    sample_name_of = d_sample_name d,
                    left_rgb_image_of = fst imgs,
                    right_rgb_image_of = fst (snd imgs),
                    left_disp_image_of = fst (snd (snd imgs)),
                    right_disp_image_of = snd (snd (snd imgs)),
                    volume_of = vol \<rparr>))"
    if idx: "py_index (file_list ds) idx = Inr d" for ds idx
  proof -
    have e: "get_datum ds fs' r idx =
              bind_err (read_views fs' r d) (\<lambda>imgs.
              bind_err (read_volume fs' (volume_path_template self tax (d_sample_name d))) (\<lambda>vol.
              Inr \<lparr> taxonomy_name_of = tax,
                    sample_name_of = d_sample_name d,
                    left_rgb_image_of = fst imgs,
                    right_rgb_image_of = fst (snd imgs),
                    left_disp_image_of = fst (snd (snd imgs)),
                    right_disp_image_of = snd (snd (snd imgs)),
                    volume_of = vol \<rparr>))"
      by (simp only: get_datum_def idx bind_err.simps names)
    have ne: "get_datum ds fs' r idx \<noteq> Inl IndexError"
      unfolding e using rv_ok
      by (auto simp add: bind_err_eq_Inl read_volume_no_index_error)
    from ne e show ?thesis by (rule conjI)
  qed
  have ex: "\<exists>k. random_choice_range r (length (left_rgb_images d)) = Inr k \<and> 0 \<le> k \<and> k < n
            \<and> py_index (left_rgb_images d) k
                = Inr (left_rgb_image_path_template self tax (d_sample_name d) k)
            \<and> py_index (right_rgb_images d) k
                = Inr (right_rgb_image_path_template self tax (d_sample_name d) k)
            \<and> py_index (left_disp_images d) k
                = Inr (left_disp_image_path_template self tax (d_sample_name d) k)
            \<and> py_index (right_disp_images d) k
                = Inr (right_disp_image_path_template self tax (d_sample_name d) k)
            \<and> read_views fs' r d =
                bind_err (read_rgb fs' (left_rgb_image_path_template self tax (d_sample_name d) k))
                  (\<lambda>left_rgb_image.
                bind_err (read_rgb fs' (right_rgb_image_path_template self tax (d_sample_name d) k))
                  (\<lambda>right_rgb_image.
                bind_err (read_disp fs' (left_disp_image_path_template self tax (d_sample_name d) k))
                  (\<lambda>left_disp_image.
                bind_err (read_disp fs' (right_disp_image_path_template self tax (d_sample_name d) k))
                  (\<lambda>right_disp_image.
                Inr (left_rgb_image, right_rgb_image, left_disp_image, right_disp_image)))))"
    by (rule exI [of _ k], intro conjI, rule ch, rule k0, rule kn, rule sel(1), rule sel(2),
        rule sel(3), rule sel(4), rule rv)
  from len ex rv_ok gd show ?thesis by (intro conjI allI impI) blast+
qed

subsection \<open>The volume container at load time\<close>

lemma read_views_no_exit: "read_views fs r d \<noteq> Inl (SystemExit c)"
  by (auto simp add: read_views_def random_choice_range_def py_index_def read_rgb_def read_disp_def
        py_getitem_def Let_def split: option.splits if_splits)

text \<open>
  What the guard on the volume container does.  \<open>SystemExit\<close> is raised for the empty
  dictionary only, and then with status 2.  Let the descriptor at \<open>idx\<close> exist and let
  the volume container be read as the dictionary \<open>vol\<close>.
  \<^item> If \<open>vol\<close> is empty, \<open>get_datum\<close> returns no sample; once the view selection and
    the four image decodes have succeeded it raises \<open>SystemExit 2\<close>.
  \<^item> If \<open>vol\<close> is not empty, \<open>get_datum\<close> never raises \<open>SystemExit\<close>, and it returns a
    sample exactly when the view selection and the four image decodes succeed and the
    container has a field \<open>Volume\<close>.
\<close>

lemma read_volume_exit_iff:
  "read_volume fs p = Inl (SystemExit c) \<longleftrightarrow> loadmat fs p = Some [] \<and> c = 2"
  by (auto simp add: read_volume_def py_getitem_def split: option.splits if_splits)

lemma get_datum_volume_container:
  assumes d: "py_index (file_list self) idx = Inr d"
      and vol: "loadmat fs (volume d) = Some vol"
  shows "(vol = [] \<longrightarrow>
            (\<forall>s. get_datum self fs r idx \<noteq> Inr s)
          \<and> (\<forall>imgs. read_views fs r d = Inr imgs \<longrightarrow> get_datum self fs r idx = Inl (SystemExit 2)))
       \<and> (vol \<noteq> [] \<longrightarrow>
            (\<forall>c. get_datum self fs r idx \<noteq> Inl (SystemExit c))
          \<and> ((\<exists>s. get_datum self fs r idx = Inr s)
               \<longleftrightarrow> (\<exists>imgs. read_views fs r d = Inr imgs) \<and> map_of vol ''Volume'' \<noteq> None))"
proof (intro conjI impI allI)
  fix s assume "vol = []"
  then show "get_datum self fs r idx \<noteq> Inr s"
    using d vol by (simp add: get_datum_def read_volume_def bind_err_eq_Inr)
next
  fix imgs assume "vol = []" "read_views fs r d = Inr imgs"
  then show "get_datum self fs r idx = Inl (SystemExit 2)"
    using d vol by (simp add: get_datum_def read_volume_def)
next
  fix c assume ne: "vol \<noteq> []"
  have "read_volume fs (volume d) \<noteq> Inl (SystemExit c)"
    using vol ne by (simp add: read_volume_def py_getitem_def split: option.splits)
  then show "get_datum self fs r idx \<noteq> Inl (SystemExit c)"
    using d read_views_no_exit [of fs r d c]
    by (auto simp add: get_datum_def bind_err_eq_Inl)
next
  assume ne: "vol \<noteq> []"
  have rv: "(\<exists>v. read_volume fs (volume d) = Inr v) \<longleftrightarrow> map_of vol ''Volume'' \<noteq> None"
    using vol ne by (auto simp add: read_volume_def py_getitem_def split: option.splits)
  show "(\<exists>s. get_datum self fs r idx = Inr s)
          \<longleftrightarrow> (\<exists>imgs. read_views fs r d = Inr imgs) \<and> map_of vol ''Volume'' \<noteq> None"
    unfolding rv [symmetric] using d
    by (auto simp add: get_datum_def bind_err_eq_Inr)
qed



subsection \<open>The example data set\<close>

lemma example_loader_sel:
  "dataset_taxonomy example_loader =
         [\<lparr> taxonomy_id = ''A'', taxonomy_name = ''chair'',
            train = [], test = [''s1'', ''s2''], val = [] \<rparr>,
          \<lparr> taxonomy_id = ''B'', taxonomy_name = ''table'',
            train = [''s3''], test = [], val = [] \<rparr>]"
  "left_rgb_image_path_template example_loader = example_template ''left''"
  "right_rgb_image_path_template example_loader = example_template ''right''"
  "left_disp_image_path_template example_loader = example_template ''ldisp''"
  "right_disp_image_path_template example_loader = example_template ''rdisp''"
  "volume_path_template example_loader t s = ''vol/'' @ t @ ''/'' @ s"
  by (simp_all add: example_loader_def)

lemma example_storage_sel:
  "path_exists (example_storage c) p = (p = ''vol/A/s1'')"
  "imread (example_storage c) p = Some [1]"
  "exr_open (example_storage c) p = Some [(''Disparity.Z'', [2])]"
  "loadmat (example_storage c) p = Some c"
  by (simp_all add: example_storage_def)

lemma example_files:
  "get_files_of_taxonomy example_loader (example_storage c) ''A'' [''s1'', ''s2''] 2
     = ([files_of_sample example_loader ''A'' 2 ''s1''], [(''A'', ''s2'')])"
  by (simp add: get_files_of_taxonomy_def sample_step_def example_loader_sel example_storage_sel)

lemma example_file_list:
  "fst (get_dataset example_loader (example_storage c) TEST 2)
     = [files_of_sample example_loader ''A'' 2 ''s1'']"
  by (simp add: get_dataset_def taxonomy_step_def split_samples_def example_loader_sel
        example_files)
     (simp add: get_files_of_taxonomy_def)


text \<open>
  Witness for C4: in the example data set the split of taxonomy \<open>A\<close> has the samples
  \<open>s1\<close>, whose volume file exists, and \<open>s2\<close>, whose volume file does not; taxonomy
  \<open>B\<close> has an empty test split, and its sample \<open>s3\<close> has no volume file.
\<close>

theorem index_builder_keeps_exactly_existing_volumes_witness:
  "set [''s1'', ''s2''] \<noteq> {}
   \<and> fst (get_files_of_taxonomy example_loader (example_storage []) ''A'' [''s1'', ''s2''] 2)
       = [files_of_sample example_loader ''A'' 2 ''s1'']
   \<and> snd (get_files_of_taxonomy example_loader (example_storage []) ''A'' [''s1'', ''s2''] 2)
       = [(''A'', ''s2'')]
   \<and> fst (get_dataset example_loader (example_storage []) TEST 2)
       = [files_of_sample example_loader ''A'' 2 ''s1'']
   \<and> fst (get_files_of_taxonomy example_loader (example_storage []) ''B'' [''s3''] 2) = []"
proof -
  note th = index_builder_keeps_exactly_existing_volumes
    [of example_loader "example_storage []" "''A''" "[''s1'', ''s2'']" 2 TEST]
  have a: "fst (get_files_of_taxonomy example_loader (example_storage []) ''A'' [''s1'', ''s2''] 2)
       = [files_of_sample example_loader ''A'' 2 ''s1'']"
    unfolding th [THEN conjunct1] by (simp add: example_loader_sel example_storage_sel)
  have b: "snd (get_files_of_taxonomy example_loader (example_storage []) ''A'' [''s1'', ''s2''] 2)
       = [(''A'', ''s2'')]"
    unfolding th [THEN conjunct2, THEN conjunct1]
    by (simp add: example_loader_sel example_storage_sel)
  have c: "fst (get_dataset example_loader (example_storage []) TEST 2)
       = [files_of_sample example_loader ''A'' 2 ''s1'']"
    unfolding th [THEN conjunct2, THEN conjunct2, THEN conjunct2, THEN conjunct1]
    by (simp add: example_loader_sel split_samples_def example_files)
       (simp add: get_files_of_taxonomy_def)
  have missing: "\<forall>s \<in> set [''s3'']. \<not> path_exists (example_storage [])
                   (volume_path_template example_loader ''B'' s)"
    by (simp add: example_loader_sel example_storage_sel)
  note e = index_builder_keeps_exactly_existing_volumes
    [of example_loader "example_storage []" "''B''" "[''s3'']" 2 TEST,
     THEN conjunct2, THEN conjunct2, THEN conjunct2, THEN conjunct2, THEN mp, OF missing]
  show ?thesis using a b c e by simp
qed

lemma view_storage_sel:
  "imread view_storage p =
     (if p = ''left/A/s1/'' then Some [1]
      else if p = ''right/A/s1/'' then Some [2]
      else if p = ''left/A/s1/i'' then Some [11]
      else if p = ''right/A/s1/i'' then Some [12]
      else None)"
  "exr_open view_storage p =
     (if p = ''ldisp/A/s1/'' then Some [(''Disparity.Z'', [3])]
      else if p = ''rdisp/A/s1/'' then Some [(''Disparity.Z'', [4])]
      else if p = ''ldisp/A/s1/i'' then Some [(''Disparity.Z'', [13])]
      else if p = ''rdisp/A/s1/i'' then Some [(''Disparity.Z'', [14])]
      else None)"
  "loadmat view_storage p =
     Some [(''__header__'', []), (''__version__'', []), (''__globals__'', []),
           (''Volume'', [0, 1])]"
  by (simp_all add: view_storage_def)

lemma example_view_paths:
  "example_template ''left'' ''A'' ''s1'' 0 = ''left/A/s1/''"
  "example_template ''right'' ''A'' ''s1'' 0 = ''right/A/s1/''"
  "example_template ''ldisp'' ''A'' ''s1'' 0 = ''ldisp/A/s1/''"
  "example_template ''rdisp'' ''A'' ''s1'' 0 = ''rdisp/A/s1/''"
  "example_template ''left'' ''A'' ''s1'' 1 = ''left/A/s1/i''"
  "example_template ''right'' ''A'' ''s1'' 1 = ''right/A/s1/i''"
  "example_template ''ldisp'' ''A'' ''s1'' 1 = ''ldisp/A/s1/i''"
  "example_template ''rdisp'' ''A'' ''s1'' 1 = ''rdisp/A/s1/i''"
  by (simp_all add: example_template_def)

lemma view_storage_reads:
  "read_rgb view_storage ''left/A/s1/'' = Inr [1]"
  "read_rgb view_storage ''right/A/s1/'' = Inr [2]"
  "read_disp view_storage ''ldisp/A/s1/'' = Inr [3]"
  "read_disp view_storage ''rdisp/A/s1/'' = Inr [4]"
  "read_rgb view_storage ''left/A/s1/i'' = Inr [11]"
  "read_rgb view_storage ''right/A/s1/i'' = Inr [12]"
  "read_disp view_storage ''ldisp/A/s1/i'' = Inr [13]"
  "read_disp view_storage ''rdisp/A/s1/i'' = Inr [14]"
  "read_volume view_storage ''vol/A/s1'' = Inr [0, 1]"
  by (simp_all add: read_rgb_def read_disp_def read_volume_def py_getitem_def view_storage_sel)

text \<open>
  Witness for C10: the descriptor of \<open>A/s1\<close> built with two views, loaded from the
  storage in which every file has its own content.  A draw of \<open>1\<close> loads the four files
  of view 1, a draw of \<open>0\<close> the four files of view 0.
\<close>

theorem built_descriptor_view_lists_witness:
  "files_of_sample example_loader ''A'' 2 ''s1''
     \<in> set (fst (get_files_of_taxonomy example_loader (example_storage []) ''A'' [''s1'', ''s2''] 2))
   \<and> (1::int) \<le> 2
   \<and> length (left_rgb_images (files_of_sample example_loader ''A'' 2 ''s1'')) = 2
   \<and> length (right_disp_images (files_of_sample example_loader ''A'' 2 ''s1'')) = 2
   \<and> read_views view_storage 1 (files_of_sample example_loader ''A'' 2 ''s1'')
       = Inr ([11], [12], [13], [14])
   \<and> read_views view_storage 0 (files_of_sample example_loader ''A'' 2 ''s1'')
       = Inr ([1], [2], [3], [4])
   \<and> py_index (file_list example_dataset) 0 = Inr (files_of_sample example_loader ''A'' 2 ''s1'')
   \<and> get_datum example_dataset view_storage 1 0
       = Inr \<lparr> taxonomy_name_of = ''A'', sample_name_of = ''s1'', left_rgb_image_of = [11],
               right_rgb_image_of = [12], left_disp_image_of = [13],
               right_disp_image_of = [14], volume_of = [0, 1] \<rparr>"
proof -
  let ?d = "files_of_sample example_loader ''A'' 2 ''s1''"
  have m: "?d \<in> set (fst (get_files_of_taxonomy example_loader (example_storage []) ''A''
                        [''s1'', ''s2''] 2))"
    by (simp add: example_files)
  have n: "(1::int) \<le> 2" by simp
  have sn: "d_sample_name ?d = ''s1''" by simp
  note th1 = built_descriptor_view_lists [OF m n, of 1 view_storage]
  note th0 = built_descriptor_view_lists [OF m n, of 0 view_storage]
  have l1: "length (left_rgb_images ?d) = 2"
    using th1 [THEN conjunct1] by simp
  have l2: "length (right_disp_images ?d) = 2"
    using th1 [THEN conjunct2, THEN conjunct2, THEN conjunct2, THEN conjunct1] by simp
  note ex1 = th1 [THEN conjunct2, THEN conjunct2, THEN conjunct2, THEN conjunct2, THEN conjunct1]
  note ex0 = th0 [THEN conjunct2, THEN conjunct2, THEN conjunct2, THEN conjunct2, THEN conjunct1]
  from ex1 obtain k where
    ch: "random_choice_range 1 (length (left_rgb_images ?d)) = Inr k" and
    rv: "read_views view_storage 1 ?d =
           bind_err (read_rgb view_storage
              (left_rgb_image_path_template example_loader ''A'' (d_sample_name ?d) k)) (\<lambda>a.
           bind_err (read_rgb view_storage
              (right_rgb_image_path_template example_loader ''A'' (d_sample_name ?d) k)) (\<lambda>b.
           bind_err (read_disp view_storage
              (left_disp_image_path_template example_loader ''A'' (d_sample_name ?d) k)) (\<lambda>c.
           bind_err (read_disp view_storage
              (right_disp_image_path_template example_loader ''A'' (d_sample_name ?d) k)) (\<lambda>e.
           Inr (a, b, c, e)))))"
    by blast
  have k1: "k = 1" using ch unfolding l1 by (simp add: random_choice_range_def)
  have v1: "read_views view_storage 1 ?d = Inr ([11], [12], [13], [14])"
    unfolding rv k1 sn example_loader_sel example_view_paths view_storage_reads bind_err.simps
    by (rule refl)
  from ex0 obtain j where
    ch0: "random_choice_range 0 (length (left_rgb_images ?d)) = Inr j" and
    rv0: "read_views view_storage 0 ?d =
           bind_err (read_rgb view_storage
              (left_rgb_image_path_template example_loader ''A'' (d_sample_name ?d) j)) (\<lambda>a.
           bind_err (read_rgb view_storage
              (right_rgb_image_path_template example_loader ''A'' (d_sample_name ?d) j)) (\<lambda>b.
           bind_err (read_disp view_storage
              (left_disp_image_path_template example_loader ''A'' (d_sample_name ?d) j)) (\<lambda>c.
           bind_err (read_disp view_storage
              (right_disp_image_path_template example_loader ''A'' (d_sample_name ?d) j)) (\<lambda>e.
           Inr (a, b, c, e)))))"
    by blast
  have j0: "j = 0" using ch0 unfolding l1 by (simp add: random_choice_range_def)
  have v0: "read_views view_storage 0 ?d = Inr ([1], [2], [3], [4])"
    unfolding rv0 j0 sn example_loader_sel example_view_paths view_storage_reads bind_err.simps
    by (rule refl)
  have idx: "py_index (file_list example_dataset) 0 = Inr ?d"
    by (simp add: example_dataset_def example_file_list py_index_def)
  note gd = th1 [THEN conjunct2, THEN conjunct2, THEN conjunct2, THEN conjunct2, THEN conjunct2,
                 THEN conjunct2, THEN spec, THEN spec, THEN mp, OF idx, THEN conjunct2]
  have g: "get_datum example_dataset view_storage 1 0
       = Inr \<lparr> taxonomy_name_of = ''A'', sample_name_of = ''s1'', left_rgb_image_of = [11],
               right_rgb_image_of = [12], left_disp_image_of = [13],
               right_disp_image_of = [14], volume_of = [0, 1] \<rparr>"
    unfolding gd v1 sn example_loader_sel bind_err.simps
    by (simp add: view_storage_reads)
  from m n l1 l2 v1 v0 idx g show ?thesis by (intro conjI)
qed




section \<open>Properties of the evaluation pass\<close>

subsection \<open>IoU per sample\<close>

lemma intersection_count:
  "set gt \<subseteq> {0, 1} \<Longrightarrow>
   sum_list (map2 (*) (map (\<lambda>v. if fl_ge v th then 1 else 0) gen) gt)
     = real (length (filter (\<lambda>(p, g). p = 1 \<and> g = 1) (zip (map (spec_binarize th) gen) gt)))"
proof (induction gen arbitrary: gt)
  case Nil
  then show ?case by simp
next
  case (Cons v gen)
  show ?case
  proof (cases gt)
    case Nil
    then show ?thesis by simp
  next
    case (Cons g gs)
    with Cons.prems have g: "g = 0 \<or> g = 1" and gs: "set gs \<subseteq> {0, 1}" by auto
    from Cons.IH [OF gs] g show ?thesis
      by (auto simp add: Cons spec_binarize_def)
  qed
qed

lemma union_count:
  "length (filter (\<lambda>s. 1 \<le> s) (map2 (+) (map (\<lambda>v. if fl_ge v th then 1 else 0) gen) gt))
     = length (filter (\<lambda>(p, g). 1 \<le> real p + g) (zip (map (spec_binarize th) gen) gt))"
proof (induction gen arbitrary: gt)
  case Nil
  then show ?case by simp
next
  case (Cons v gen)
  show ?case
  proof (cases gt)
    case Nil
    then show ?thesis by simp
  next
    case (Cons g gs)
    from Cons.IH [of gs] show ?thesis
      by (simp add: Cons spec_binarize_def)
  qed
qed

lemma intersection_th_spec:
  "set gt \<subseteq> {0, 1} \<Longrightarrow> intersection_th gen gt th = real (spec_intersection gen gt th)"
  by (simp only: intersection_th_def volume_th_def spec_intersection_def intersection_count)

lemma union_th_spec: "union_th gen gt th = real (spec_union gen gt th)"
  by (simp only: union_th_def volume_th_def spec_union_def union_count)

text \<open>
  Claim C2.  For every fused volume, every ground-truth volume with entries in \<open>{0, 1}\<close>
  and every list of thresholds, the IoU vector computed by the loop over the thresholds
  is, threshold by threshold and in the configured order, the IoU of the specification:
  intersection (AND-sum of the binary prediction with the ground truth) divided by union
  (count of positions where their sum is at least 1).
\<close>

theorem sample_iou_as_specified:
  assumes "set gt \<subseteq> {0, 1}"
  shows "sample_iou_of ths gen gt = map (spec_iou gen gt) ths"
  using assms
  by (simp add: sample_iou_of_def iou_th_def spec_iou_def intersection_th_spec union_th_spec)

lemma spec_intersection_le_union: "spec_intersection gen gt th \<le> spec_union gen gt th"
proof -
  have "length (filter (\<lambda>(p, g). p = 1 \<and> g = 1) xs)
          \<le> length (filter (\<lambda>(p, g). 1 \<le> real p + g) xs)" for xs :: "(nat \<times> real) list"
    by (induction xs) auto
  then show ?thesis by (simp add: spec_intersection_def spec_union_def)
qed

text \<open>
  Claim C7.  For every fused volume, every ground-truth volume with entries in \<open>{0, 1}\<close>
  and every threshold, if the computed union is strictly positive then the computed IoU is
  a finite number in the closed interval from 0 to 1.
\<close>

theorem iou_in_unit_interval:
  assumes gt: "set gt \<subseteq> {0, 1}"
      and u: "0 < union_th gen gt th"
  shows "\<exists>x. iou_th gen gt th = Fin x \<and> 0 \<le> x \<and> x \<le> 1"
proof -
  have i: "intersection_th gen gt th = real (spec_intersection gen gt th)"
    using gt by (rule intersection_th_spec)
  have le: "intersection_th gen gt th \<le> union_th gen gt th"
    using spec_intersection_le_union [of gen gt th] by (simp add: i union_th_spec)
  have nn: "0 \<le> intersection_th gen gt th" by (simp add: i)
  have "iou_th gen gt th = Fin (intersection_th gen gt th / union_th gen gt th)"
    using u by (simp add: iou_th_def fdiv_def)
  moreover have "0 \<le> intersection_th gen gt th / union_th gen gt th"
    using nn u by simp
  moreover have "intersection_th gen gt th / union_th gen gt th \<le> 1"
    using le u by simp
  ultimately show ?thesis by blast
qed

subsection \<open>The fused volume\<close>

lemma length_one: "length vs = Suc 0 \<Longrightarrow> \<exists>x. vs = [x]"
  by (cases vs) auto

lemma mean_of_single_slices:
  "length l = length r \<Longrightarrow> \<forall>vs \<in> set l. length vs = 1 \<Longrightarrow> \<forall>vs \<in> set r. length vs = 1 \<Longrightarrow>
   torch_mean_dim1 (map2 (@) l r) = map2 (\<lambda>a b. Fin ((hd a + hd b) / 2)) l r"
proof (induction l r rule: list_induct2)
  case Nil
  then show ?case by (simp add: torch_mean_dim1_def)
next
  case (Cons vs l ws r)
  from Cons.prems obtain x y where "vs = [x]" "ws = [y]"
    using length_one [of vs] length_one [of ws] by auto
  moreover have "torch_mean_dim1 (map2 (@) l r) = map2 (\<lambda>a b. Fin ((hd a + hd b) / 2)) l r"
    using Cons by simp
  ultimately show ?case by (simp add: torch_mean_dim1_def fdiv_def)
qed

lemma stacked_mean_of_single_slices:
  "length l = length r \<Longrightarrow> \<forall>vs \<in> set l. length vs = 1 \<Longrightarrow> \<forall>vs \<in> set r. length vs = 1 \<Longrightarrow>
   concat (stacked_mean l r) = map2 (\<lambda>a b. Fin ((hd a + hd b) / 2)) l r"
proof (induction l r rule: list_induct2)
  case Nil
  then show ?case by (simp add: stacked_mean_def)
next
  case (Cons vs l ws r)
  from Cons.prems obtain x y where "vs = [x]" "ws = [y]"
    using length_one [of vs] length_one [of ws] by auto
  moreover have "concat (stacked_mean l r) = map2 (\<lambda>a b. Fin ((hd a + hd b) / 2)) l r"
    using Cons by simp
  ultimately show ?case by (simp add: stacked_mean_def fdiv_def)
qed

lemma fuse_volumes_mean_of_all_entries:
  assumes "length l = length r"
  shows "fuse_volumes l r =
           Inr (map2 (\<lambda>a b. fdiv (sum_list a + sum_list b) (real (length a + length b))) l r)"
proof -
  have "torch_mean_dim1 (map2 (@) l r)
          = map2 (\<lambda>a b. fdiv (sum_list a + sum_list b) (real (length a + length b))) l r"
    using assms by (induction l r rule: list_induct2) (simp_all add: torch_mean_dim1_def)
  then show ?thesis using assms by (simp add: fuse_volumes_def torch_cat_dim1_def)
qed

text \<open>
  Claim C6, as the code has it.  When the two volume estimates have the same positions
  and each has exactly one entry along axis 1 at every position, the fused volume is
  their stacked mean with the single-entry axis dropped: the fused entry at a position
  is (left entry + right entry) / 2.
\<close>

theorem fused_volume_of_single_slices:
  assumes len: "length l = length r"
      and l1: "\<forall>vs \<in> set l. length vs = 1"
      and r1: "\<forall>vs \<in> set r. length vs = 1"
  shows "fuse_volumes l r = Inr (concat (stacked_mean l r))
       \<and> concat (stacked_mean l r) = map2 (\<lambda>a b. Fin ((hd a + hd b) / 2)) l r"
proof -
  have "fuse_volumes l r = Inr (torch_mean_dim1 (map2 (@) l r))"
    using len by (simp add: fuse_volumes_def torch_cat_dim1_def)
  then show ?thesis
    by (simp add: mean_of_single_slices [OF len l1 r1] stacked_mean_of_single_slices [OF len l1 r1])
qed

text \<open>
  Counterexample to C6 as stated: two estimates of identical shape with two entries along
  axis 1.  Concatenation along axis 1 gives four entries there, and the fused entry is
  the mean of all four, \<open>4\<close>; the elementwise mean of the two estimates has the entries
  \<open>3\<close> and \<open>5\<close>.
\<close>

theorem fused_volume_of_two_slices_counterexample:
  "fuse_volumes [ [1, 3] ] [ [5, 7] ] = Inr [Fin 4]
   \<and> concat (stacked_mean [ [1, 3] ] [ [5, 7] ]) = [Fin 3, Fin 5]
   \<and> fuse_volumes [ [1, 3] ] [ [5, 7] ] \<noteq> Inr (concat (stacked_mean [ [1, 3] ] [ [5, 7] ]))"
  by (simp add: fuse_volumes_def torch_cat_dim1_def torch_mean_dim1_def stacked_mean_def fdiv_def)

text \<open>
  Witness for C6: two estimates over two positions with one entry along axis 1.
\<close>

theorem fused_volume_of_single_slices_witness:
  "length [ [1], [0::real] ] = length [ [0], [1::real] ]
   \<and> fuse_volumes [ [1], [0] ] [ [0], [1] ] = Inr [Fin (1 / 2), Fin (1 / 2)]"
proof -
  have a: "length [ [1], [0::real] ] = length [ [0], [1::real] ]" by simp
  have b: "\<forall>vs \<in> set [ [1], [0::real] ]. length vs = 1" by simp
  have c: "\<forall>vs \<in> set [ [0], [1::real] ]. length vs = 1" by simp
  note th = fused_volume_of_single_slices [OF a b c]
  have "fuse_volumes [ [1], [0] ] [ [0], [1] ] = Inr [Fin (1 / 2), Fin (1 / 2)]"
    unfolding th [THEN conjunct1] th [THEN conjunct2] by simp
  with a show ?thesis by simp
qed

subsection \<open>The disparity loss\<close>

lemma disparity_loss_unbound:
  "disparity_loss test_py_globals l r = Inl (NameError ''mse_loss'')"
  by (simp add: disparity_loss_def test_py_globals_def py_name_def)

lemma disparity_loss_bound:
  "disparity_loss \<lparr> mse_loss = Some f, left_depth_images = Some l, right_depth_images = Some r \<rparr>
       left_depth_estimated right_depth_estimated
     = Inr (f left_depth_estimated l + f right_depth_estimated r)"
  by (simp add: disparity_loss_def py_name_def)

lemma test_step_unbound:
  "globals c = test_py_globals \<Longrightarrow> test_step c i st b \<noteq> Inr st'"
  by (cases "fuse_volumes (recnet (nets c) (left_rgb_image b, fst (dispnet (nets c) (left_rgb_image b) (right_rgb_image b))))
               (recnet (nets c) (right_rgb_image b, snd (dispnet (nets c) (left_rgb_image b) (right_rgb_image b))))")
     (simp_all add: test_step_def Let_def disparity_loss_unbound)

subsection \<open>The buckets during the loop\<close>

lemma py_in_iff: "py_in k d \<longleftrightarrow> k \<in> fst ` set d"
  by (simp add: py_in_def map_of_eq_None_iff)

lemma py_setitem_new: "k \<notin> fst ` set d \<Longrightarrow> py_setitem d k v = d @ [(k, v)]"
  by (induction d) auto

lemma py_modify_new: "k \<notin> fst ` set d \<Longrightarrow> py_modify (d @ [(k, v)]) k f = d @ [(k, f v)]"
  by (induction d) auto

lemma py_modify_twice: "py_modify (py_modify d k f) k g = py_modify d k (\<lambda>b. g (f b))"
  by (induction d) auto

lemma record_iou_eq:
  "record_iou d k v =
     (if k \<in> fst ` set d
      then py_modify d k (\<lambda>b. b\<lparr> n_samples := n_samples b + 1, iou := iou b @ [v] \<rparr>)
      else d @ [(k, \<lparr> n_samples = 1, iou = [v] \<rparr>)])"
  by (simp add: record_iou_def Let_def py_in_iff py_setitem_new py_modify_new py_modify_twice)

lemma total_samples_modify:
  "k \<in> fst ` set d \<Longrightarrow> (\<And>b. n_samples (f b) = n_samples b + 1) \<Longrightarrow>
   total_samples (py_modify d k f) = total_samples d + 1"
proof (induction d)
  case Nil
  then show ?case by simp
next
  case (Cons kb d)
  show ?case
  proof (cases "fst kb = k")
    case True
    then show ?thesis using Cons.prems(2) by (cases kb) (simp add: total_samples_def)
  next
    case False
    with Cons.prems(1) have "k \<in> fst ` set d" by auto
    from Cons.IH [OF this Cons.prems(2)] False show ?thesis
      by (cases kb) (simp add: total_samples_def)
  qed
qed

lemma buckets_ok_modify:
  "buckets_ok w d \<Longrightarrow> (\<And>b. bucket_ok w b \<Longrightarrow> bucket_ok w (f b)) \<Longrightarrow>
   buckets_ok w (py_modify d k f)"
  by (induction d) (auto simp add: buckets_ok_def)

lemma record_iou_total: "total_samples (record_iou d k v) = total_samples d + 1"
  by (simp add: record_iou_eq total_samples_modify) (simp add: total_samples_def)

lemma record_iou_ok:
  assumes "buckets_ok w d" "length v = w"
  shows "buckets_ok w (record_iou d k v)"
proof (cases "k \<in> fst ` set d")
  case True
  have "buckets_ok w (py_modify d k (\<lambda>b. b\<lparr> n_samples := n_samples b + 1, iou := iou b @ [v] \<rparr>))"
    using assms(1) by (rule buckets_ok_modify) (simp add: bucket_ok_def assms(2))
  with True show ?thesis by (simp add: record_iou_eq)
next
  case False
  then show ?thesis using assms by (simp add: record_iou_eq buckets_ok_def bucket_ok_def)
qed

lemma length_sample_iou_of: "length (sample_iou_of ths gen gt) = length ths"
  by (simp add: sample_iou_of_def)

lemma test_step_Inr:
  assumes "test_step c i st b = Inr st'"
  shows "\<exists>gen. test_iou st' = record_iou (test_iou st) (b_taxonomy_id b)
                  (sample_iou_of (VOXEL_THRESH c) gen (ground_truth_volume b))"
  using assms unfolding test_step_def Let_def bind_err_eq_Inr by auto

lemma test_step_ok:
  assumes "test_step c i st b = Inr st'" "buckets_ok (length (VOXEL_THRESH c)) (test_iou st)"
  shows "buckets_ok (length (VOXEL_THRESH c)) (test_iou st')
       \<and> total_samples (test_iou st') = total_samples (test_iou st) + 1"
proof -
  from test_step_Inr [OF assms(1)] obtain gen where
    e: "test_iou st' = record_iou (test_iou st) (b_taxonomy_id b)
                  (sample_iou_of (VOXEL_THRESH c) gen (ground_truth_volume b))" by blast
  show ?thesis unfolding e
    by (simp add: record_iou_total record_iou_ok [OF assms(2)] length_sample_iou_of)
qed

lemma test_loop_ok:
  "test_loop c i st bs = Inr st' \<Longrightarrow> buckets_ok (length (VOXEL_THRESH c)) (test_iou st) \<Longrightarrow>
   buckets_ok (length (VOXEL_THRESH c)) (test_iou st')
   \<and> total_samples (test_iou st') = total_samples (test_iou st) + length bs"
proof (induction bs arbitrary: i st)
  case Nil
  then show ?case by simp
next
  case (Cons b bs)
  from Cons.prems(1) obtain st1 where
    s1: "test_step c i st b = Inr st1" and s2: "test_loop c (Suc i) st1 bs = Inr st'"
    by (auto simp add: bind_err_eq_Inr)
  from test_step_ok [OF s1 Cons.prems(2)] Cons.IH [OF s2] show ?case by simp
qed

lemma initial_ok: "buckets_ok w (test_iou initial_state)" "total_samples (test_iou initial_state) = 0"
  by (simp_all add: initial_state_def buckets_ok_def total_samples_def)

lemma test_loop_initial:
  assumes "test_loop c 0 initial_state bs = Inr st"
  shows "buckets_ok (length (VOXEL_THRESH c)) (test_iou st)" "total_samples (test_iou st) = length bs"
  using test_loop_ok [OF assms initial_ok(1)] by (simp_all add: initial_ok(2))

lemma keys_modify: "map fst (py_modify d k f) = map fst d"
  by (induction d) auto

lemma map_of_modify:
  "map_of (py_modify d k f) k' = (if k' = k then map_option f (map_of d k) else map_of d k')"
  by (induction d) auto

lemma keys_record_iou:
  "map fst (record_iou d k v) = (if k \<in> fst ` set d then map fst d else map fst d @ [k])"
  by (simp add: record_iou_eq keys_modify)

lemma distinct_record_iou: "distinct (map fst d) \<Longrightarrow> distinct (map fst (record_iou d k v))"
  by (auto simp add: keys_record_iou)

lemma count_of_record_iou:
  "count_of (record_iou d k v) k' = count_of d k' + (if k' = k then 1 else 0)"
proof (cases "k \<in> fst ` set d")
  case True
  then obtain b where "map_of d k = Some b"
    by (metis map_of_eq_None_iff not_Some_eq)
  with True show ?thesis
    by (simp add: record_iou_eq count_of_def map_of_modify)
next
  case False
  then have "map_of d k = None" by (simp add: map_of_eq_None_iff)
  with False show ?thesis
    by (auto simp add: record_iou_eq count_of_def map_add_def split: option.splits)
qed

lemma test_loop_counts:
  "test_loop c i st bs = Inr st' \<Longrightarrow> distinct (map fst (test_iou st)) \<Longrightarrow>
   distinct (map fst (test_iou st'))
   \<and> (\<forall>k. count_of (test_iou st') k
            = count_of (test_iou st) k + length (filter (\<lambda>b. b_taxonomy_id b = k) bs))"
proof (induction bs arbitrary: i st)
  case Nil
  then show ?case by simp
next
  case (Cons b bs)
  from Cons.prems(1) obtain st1 where
    s1: "test_step c i st b = Inr st1" and s2: "test_loop c (Suc i) st1 bs = Inr st'"
    by (auto simp add: bind_err_eq_Inr)
  from test_step_Inr [OF s1] obtain gen where
    e: "test_iou st1 = record_iou (test_iou st) (b_taxonomy_id b)
                  (sample_iou_of (VOXEL_THRESH c) gen (ground_truth_volume b))" by blast
  have d1: "distinct (map fst (test_iou st1))"
    unfolding e using Cons.prems(2) by (rule distinct_record_iou)
  from Cons.IH [OF s2 d1] show ?case
    by (auto simp add: e count_of_record_iou)
qed

lemma test_loop_bucket_counts:
  assumes loop: "test_loop c 0 initial_state bs = Inr st" and kb: "kb \<in> set (test_iou st)"
  shows "n_samples (snd kb) = length (filter (\<lambda>b. b_taxonomy_id b = fst kb) bs)"
proof -
  have 0: "distinct (map fst (test_iou initial_state))" by (simp add: initial_state_def)
  note r = test_loop_counts [OF loop 0]
  have "map_of (test_iou st) (fst kb) = Some (snd kb)"
    using r kb by (cases kb) simp
  then have "count_of (test_iou st) (fst kb) = n_samples (snd kb)" by (simp add: count_of_def)
  moreover have "count_of (test_iou initial_state) (fst kb) = 0"
    by (simp add: count_of_def initial_state_def)
  ultimately show ?thesis using r by simp
qed

subsection \<open>The report\<close>

lemma np_mean_ok:
  assumes "bucket_ok w b"
  shows "np_mean_axis0 (iou b) = Inr (Array1 (elementwise_mean w (iou b)))"
proof -
  from assms obtain r rs where rows: "iou b = r # rs" and r: "length r = w"
    and rs: "list_all (\<lambda>v. length v = w) rs"
    by (cases "iou b") (auto simp add: bucket_ok_def)
  show ?thesis
    using r rs by (simp add: np_mean_axis0_def rows elementwise_mean_def column_def)
qed

lemma taxonomy_means_ok:
  "buckets_ok w d \<Longrightarrow>
   taxonomy_means d =
     Inr (map (\<lambda>kb. (fst kb, (n_samples (snd kb), Array1 (elementwise_mean w (iou (snd kb)))))) d,
          map (\<lambda>kb. Array1 (map (\<lambda>x. fl_mul_nat x (n_samples (snd kb))) (elementwise_mean w (iou (snd kb))))) d)"
proof (induction d)
  case Nil
  then show ?case by simp
next
  case (Cons kb d)
  obtain k b where kb: "kb = (k, b)" by (cases kb)
  from Cons.prems have b: "bucket_ok w b" and d: "buckets_ok w d"
    by (simp_all add: buckets_ok_def kb)
  show ?case by (simp add: kb np_mean_ok [OF b] Cons.IH [OF d])
qed

lemma np_sum_arrays:
  assumes "xss \<noteq> []" "list_all (\<lambda>xs. length xs = w) xss"
  shows "np_sum_axis0 (map Array1 xss)
           = Inr (Array1 (map (\<lambda>j. fl_sum (map (\<lambda>r. r ! j) xss)) [0..<w]))"
proof -
  from assms obtain xs rest where x: "xss = xs # rest" and l: "length xs = w"
    and r: "list_all (\<lambda>xs. length xs = w) rest" by (cases xss) auto
  have 1: "list_all (\<lambda>w'. map_option length (array_of w') = Some (length xs)) (map Array1 rest)"
    using r l by (induction rest) auto
  have 2: "map (\<lambda>w'. the (array_of w')) (map Array1 rest) = rest"
    by (induction rest) auto
  show ?thesis
    unfolding x l [symmetric]
    by (simp only: np_sum_axis0_def list.map list.case np_value.case 1 2 if_True column_def)
qed

lemma length_elementwise_mean: "length (elementwise_mean w rows) = w"
  by (simp add: elementwise_mean_def)

lemma output_results_ok:
  assumes ok: "buckets_ok w d" and ne: "d \<noteq> []"
  shows "output_results d n =
     Inr \<lparr> per_taxonomy =
             map (\<lambda>kb. (fst kb, (n_samples (snd kb), Array1 (elementwise_mean w (iou (snd kb)))))) d,
           mean_iou = Array1 (map (\<lambda>j. fl_div_nat
               (fl_sum (map (\<lambda>kb. fl_mul_nat (elementwise_mean w (iou (snd kb)) ! j)
                                               (n_samples (snd kb))) d)) n) [0..<w]) \<rparr>"
proof -
  let ?scaled = "map (\<lambda>kb. map (\<lambda>x. fl_mul_nat x (n_samples (snd kb)))
                               (elementwise_mean w (iou (snd kb)))) d"
  have snd_eq: "map (\<lambda>kb. Array1 (map (\<lambda>x. fl_mul_nat x (n_samples (snd kb)))
                               (elementwise_mean w (iou (snd kb))))) d = map Array1 ?scaled"
    by simp
  have ne': "?scaled \<noteq> []" using ne by simp
  have len: "list_all (\<lambda>xs. length xs = w) ?scaled"
    by (simp add: list_all_iff length_elementwise_mean)
  have col: "map (\<lambda>j. fl_sum (map (\<lambda>r. r ! j) ?scaled)) [0..<w]
           = map (\<lambda>j. fl_sum (map (\<lambda>kb. fl_mul_nat (elementwise_mean w (iou (snd kb)) ! j)
                                               (n_samples (snd kb))) d)) [0..<w]"
    by (rule map_cong [OF refl]) (simp add: length_elementwise_mean comp_def)
  show ?thesis
    unfolding output_results_def taxonomy_means_ok [OF ok] bind_err.simps snd_conv fst_conv
      snd_eq np_sum_arrays [OF ne' len] col
    by (simp add: comp_def)
qed

lemma weighted_average_buckets:
  "weighted_average w (map (\<lambda>kb. (elementwise_mean w (iou (snd kb)), n_samples (snd kb))) d)
     = map (\<lambda>j. fl_div_nat
               (fl_sum (map (\<lambda>kb. fl_mul_nat (elementwise_mean w (iou (snd kb)) ! j)
                                               (n_samples (snd kb))) d)) (total_samples d)) [0..<w]"
  by (simp add: weighted_average_def total_samples_def comp_def)

lemma buckets_ok_counts:
  "buckets_ok w d \<Longrightarrow> kb \<in> set d \<Longrightarrow> n_samples (snd kb) = length (iou (snd kb)) \<and> 0 < n_samples (snd kb)"
  by (auto simp add: buckets_ok_def bucket_ok_def list_all_iff)

lemma buckets_ok_lengths:
  "buckets_ok w d \<Longrightarrow> kb \<in> set d \<Longrightarrow> v \<in> set (iou (snd kb)) \<Longrightarrow> length v = w"
  by (auto simp add: buckets_ok_def bucket_ok_def list_all_iff)

lemma evaluation_pass_completes:
  assumes loop: "test_loop c 0 initial_state loader = Inr st"
      and ne: "loader \<noteq> []"
  shows "\<exists>rep. evaluation_pass c loader = Inr rep \<and> per_taxonomy rep \<noteq> []"
proof -
  note ok = test_loop_initial(1) [OF loop]
  note tot = test_loop_initial(2) [OF loop]
  have d: "test_iou st \<noteq> []" using tot ne by (auto simp add: total_samples_def)
  have "evaluation_pass c loader = output_results (test_iou st) (length loader)"
    by (simp add: evaluation_pass_def loop)
  then show ?thesis using d by (simp add: output_results_ok [OF ok d])
qed

lemma evaluation_pass_Inr:
  assumes "evaluation_pass c loader = Inr rep"
  shows "\<exists>st r. test_loop c 0 initial_state loader = Inr st
           \<and> taxonomy_means (test_iou st) = Inr r \<and> per_taxonomy rep = fst r"
  using assms unfolding evaluation_pass_def output_results_def Let_def bind_err_eq_Inr by auto

text \<open>
  Claim C1.  If the testing loop completes on a data loader with at least one item, the
  pass produces, for every taxonomy in first-encounter order, its sample count and the
  elementwise mean of its IoU vectors, and the overall vector \<open>mean_iou\<close> is the
  sample-count-weighted average of these means: the sum over the taxonomies of mean
  vector times sample count, divided by the total of the sample counts.  That total is
  the length of the data loader, by which the code divides; the sample count of a
  taxonomy is the number of its IoU vectors and the number of loader items of that
  taxonomy.
\<close>

theorem overall_mean_is_weighted_average:
  assumes loop: "test_loop c 0 initial_state loader = Inr st"
      and ne: "loader \<noteq> []"
  shows "evaluation_pass c loader =
           Inr \<lparr> per_taxonomy =
                   map (\<lambda>kb. (fst kb, (n_samples (snd kb),
                          Array1 (elementwise_mean (length (VOXEL_THRESH c)) (iou (snd kb))))))
                       (test_iou st),
                 mean_iou = Array1 (weighted_average (length (VOXEL_THRESH c))
                   (map (\<lambda>kb. (elementwise_mean (length (VOXEL_THRESH c)) (iou (snd kb)),
                               n_samples (snd kb))) (test_iou st))) \<rparr>
       \<and> sum_list (map (\<lambda>kb. n_samples (snd kb)) (test_iou st)) = length loader
       \<and> (\<forall>kb \<in> set (test_iou st).
             n_samples (snd kb) = length (iou (snd kb))
           \<and> n_samples (snd kb) = length (filter (\<lambda>b. b_taxonomy_id b = fst kb) loader))"
proof -
  note ok = test_loop_initial(1) [OF loop]
  note tot = test_loop_initial(2) [OF loop]
  have d: "test_iou st \<noteq> []" using tot ne by (auto simp add: total_samples_def)
  have "evaluation_pass c loader = output_results (test_iou st) (length loader)"
    by (simp add: evaluation_pass_def loop)
  then have 1: "evaluation_pass c loader =
           Inr \<lparr> per_taxonomy =
                   map (\<lambda>kb. (fst kb, (n_samples (snd kb),
                          Array1 (elementwise_mean (length (VOXEL_THRESH c)) (iou (snd kb))))))
                       (test_iou st),
                 mean_iou = Array1 (weighted_average (length (VOXEL_THRESH c))
                   (map (\<lambda>kb. (elementwise_mean (length (VOXEL_THRESH c)) (iou (snd kb)),
                               n_samples (snd kb))) (test_iou st))) \<rparr>"
    by (simp only: output_results_ok [OF ok d] weighted_average_buckets tot)
  have 2: "sum_list (map (\<lambda>kb. n_samples (snd kb)) (test_iou st)) = length loader"
    using tot by (simp add: total_samples_def)
  have 3: "\<forall>kb \<in> set (test_iou st).
             n_samples (snd kb) = length (iou (snd kb))
           \<and> n_samples (snd kb) = length (filter (\<lambda>b. b_taxonomy_id b = fst kb) loader)"
    using buckets_ok_counts [OF ok] test_loop_bucket_counts [OF loop] by blast
  from 1 2 3 show ?thesis by (intro conjI)
qed

lemma fl_add_mul_nat:
  "0 < n \<Longrightarrow> fl_add (fl_mul_nat a n) (fl_mul_nat b n) = fl_mul_nat (fl_add a b) n"
  by (cases a; cases b) (simp_all add: distrib_right)

lemma foldl_fl_add_mul_nat:
  "0 < n \<Longrightarrow> foldl fl_add (fl_mul_nat a n) (map (\<lambda>x. fl_mul_nat (f x) n) xs)
             = fl_mul_nat (foldl fl_add a (map f xs)) n"
  by (induction xs arbitrary: a) (simp_all add: fl_add_mul_nat)

lemma fl_sum_mul_nat:
  assumes "0 < n"
  shows "fl_sum (map (\<lambda>x. fl_mul_nat (f x) n) xs) = fl_mul_nat (fl_sum (map f xs)) n"
proof -
  have "Fin 0 = fl_mul_nat (Fin 0) n" by simp
  then show ?thesis
    unfolding fl_sum_def using foldl_fl_add_mul_nat [OF assms, of "Fin 0" f xs] by simp
qed

lemma fl_div_mul_nat: "0 < n \<Longrightarrow> fl_div_nat (fl_mul_nat x n) (t * n) = fl_div_nat x t"
  by (cases x) (auto simp add: fdiv_def zero_less_mult_iff)

lemma sum_list_const: "(\<forall>x \<in> set xs. f x = (c::nat)) \<Longrightarrow> sum_list (map f xs) = length xs * c"
  by (induction xs) simp_all

text \<open>
  Claim C8.  If the testing loop completes on a data loader with at least one item and
  every taxonomy bucket has the same sample count, the overall vector \<open>mean_iou\<close> is the
  unweighted elementwise mean of the per-taxonomy mean vectors.
\<close>

theorem equal_counts_give_simple_average:
  assumes loop: "test_loop c 0 initial_state loader = Inr st"
      and ne: "loader \<noteq> []"
      and eq: "\<forall>kb \<in> set (test_iou st). n_samples (snd kb) = cnt"
  shows "\<exists>rep. evaluation_pass c loader = Inr rep
           \<and> mean_iou rep = Array1 (elementwise_mean (length (VOXEL_THRESH c))
                 (map (\<lambda>kb. elementwise_mean (length (VOXEL_THRESH c)) (iou (snd kb)))
                      (test_iou st)))"
proof -
  let ?w = "length (VOXEL_THRESH c)"
  let ?d = "test_iou st"
  note ok = test_loop_initial(1) [OF loop]
  note tot = test_loop_initial(2) [OF loop]
  have d: "?d \<noteq> []" using tot ne by (auto simp add: total_samples_def)
  then obtain kb where kb: "kb \<in> set ?d" by (cases ?d) auto
  have cnt: "0 < cnt" using buckets_ok_counts [OF ok kb] eq kb by auto
  have n: "length loader = length ?d * cnt"
    using tot sum_list_const [of ?d "\<lambda>kb. n_samples (snd kb)" cnt] eq
    by (simp add: total_samples_def)
  have run: "evaluation_pass c loader = output_results ?d (length loader)"
    by (simp add: evaluation_pass_def loop)
  have col: "fl_div_nat (fl_sum (map (\<lambda>kb. fl_mul_nat (elementwise_mean ?w (iou (snd kb)) ! j)
                                               (n_samples (snd kb))) ?d)) (length loader)
           = fl_div_nat (fl_sum (map (\<lambda>r. r ! j)
                (map (\<lambda>kb. elementwise_mean ?w (iou (snd kb))) ?d))) (length ?d)" for j
  proof -
    have "map (\<lambda>kb. fl_mul_nat (elementwise_mean ?w (iou (snd kb)) ! j) (n_samples (snd kb))) ?d
        = map (\<lambda>kb. fl_mul_nat (elementwise_mean ?w (iou (snd kb)) ! j) cnt) ?d"
      using eq by (intro map_cong [OF refl]) simp
    then show ?thesis
      by (simp only: fl_sum_mul_nat [OF cnt] n fl_div_mul_nat [OF cnt]) (simp add: comp_def)
  qed
  have "mean_iou \<lparr> per_taxonomy = X, mean_iou = Array1 (map (\<lambda>j. fl_div_nat
               (fl_sum (map (\<lambda>kb. fl_mul_nat (elementwise_mean ?w (iou (snd kb)) ! j)
                                               (n_samples (snd kb))) ?d)) (length loader)) [0..<?w]) \<rparr>
        = Array1 (elementwise_mean ?w (map (\<lambda>kb. elementwise_mean ?w (iou (snd kb))) ?d))" for X
    by (simp add: elementwise_mean_def [of ?w "map f xs" for f xs] col)
  then show ?thesis
    unfolding run output_results_ok [OF ok d] by blast
qed

text \<open>
  Claim C9.  After any number of iterations of the testing loop, every IoU vector stored
  in any bucket has as many entries as there are configured thresholds.  Consequently,
  when the pass produces its report, every taxonomy in it has at least one sample and a
  mean IoU vector with as many entries as there are configured thresholds.
\<close>

theorem iou_vectors_have_threshold_length:
  "(\<forall>k st. test_loop c 0 initial_state (take k loader) = Inr st \<longrightarrow>
        (\<forall>kb \<in> set (test_iou st). \<forall>v \<in> set (iou (snd kb)). length v = length (VOXEL_THRESH c)))
   \<and> (\<forall>rep. evaluation_pass c loader = Inr rep \<longrightarrow>
        (\<forall>e \<in> set (per_taxonomy rep).
            1 \<le> fst (snd e)
          \<and> (\<exists>v. snd (snd e) = Array1 v \<and> length v = length (VOXEL_THRESH c))))"
proof -
  have inv: "\<forall>kb \<in> set (test_iou st). \<forall>v \<in> set (iou (snd kb)). length v = length (VOXEL_THRESH c)"
    if "test_loop c 0 initial_state (take k loader) = Inr st" for k st
    using buckets_ok_lengths [OF test_loop_initial(1) [OF that] ] by blast
  have means: "1 \<le> fst (snd e)
          \<and> (\<exists>v. snd (snd e) = Array1 v \<and> length v = length (VOXEL_THRESH c))"
    if pass: "evaluation_pass c loader = Inr rep" and e: "e \<in> set (per_taxonomy rep)" for rep e
  proof -
    from evaluation_pass_Inr [OF pass] obtain st r where
      loop: "test_loop c 0 initial_state loader = Inr st"
      and r: "taxonomy_means (test_iou st) = Inr r" and p: "per_taxonomy rep = fst r" by blast
    note ok = test_loop_initial(1) [OF loop]
    from r p have "per_taxonomy rep =
       map (\<lambda>kb. (fst kb, (n_samples (snd kb),
              Array1 (elementwise_mean (length (VOXEL_THRESH c)) (iou (snd kb)))))) (test_iou st)"
      by (auto simp add: taxonomy_means_ok [OF ok])
    with e obtain kb where "kb \<in> set (test_iou st)"
      and "e = (fst kb, (n_samples (snd kb),
              Array1 (elementwise_mean (length (VOXEL_THRESH c)) (iou (snd kb)))))" by auto
    then show ?thesis
      using buckets_ok_counts [OF ok, of kb] by (simp add: length_elementwise_mean)
  qed
  from inv means show ?thesis by blast
qed

subsection \<open>The example run\<close>

lemma fuse_same: "fuse_volumes (map (\<lambda>x. [x]) g) (map (\<lambda>x. [x]) g) = Inr (map Fin g)"
proof -
  have "torch_mean_dim1 (map2 (@) (map (\<lambda>x. [x]) g) (map (\<lambda>x. [x]) g)) = map Fin g"
    by (induction g) (simp_all add: torch_mean_dim1_def fdiv_def)
  then show ?thesis by (simp add: fuse_volumes_def torch_cat_dim1_def)
qed

lemma example_step:
  assumes "length generated = length gt"
  shows "test_step (example_run bound_globals) i st (example_batch t generated gt)
     = bind_err (visualize example_args i)
        (\<lambda>u. Inr \<lparr> test_iou = record_iou (test_iou st) (PyStr t)
                       (sample_iou_of [1 / 2, 3 / 10] (map Fin generated) gt),
             disparity_losses = meter_update (disparity_losses st) 0,
             voxel_losses = meter_update (voxel_losses st) 0 \<rparr>)"
  using assms
  by (simp add: test_step_def example_run_def example_batch_def example_nets_def fuse_same
        disparity_loss_def bound_globals_def py_name_def squared_error_sum_def bce_loss_def Let_def)

lemma example_visualize: "visualize example_args i = Inr ()"
  by (simp add: visualize_def example_args_def)

lemmas iou_simps = sample_iou_of_def iou_th_def intersection_th_def union_th_def volume_th_def
  fdiv_def

lemma iou_a1: "sample_iou_of [1 / 2, 3 / 10] (map Fin volume_a1) truth_a1 = [Fin (1 / 2), Fin (3 / 5)]"
  by (simp add: iou_simps volume_a1_def truth_a1_def)

lemma iou_a2: "sample_iou_of [1 / 2, 3 / 10] (map Fin volume_a2) truth_full = [Fin (7 / 10), Fin (4 / 5)]"
  by (simp add: iou_simps volume_a2_def truth_full_def)

lemma iou_b1: "sample_iou_of [1 / 2, 3 / 10] (map Fin volume_b1) truth_full = [Fin (1 / 5), Fin (3 / 10)]"
  by (simp add: iou_simps volume_b1_def truth_full_def)

lemma example_lengths:
  "length volume_a1 = length truth_a1" "length volume_a2 = length truth_full"
  "length volume_b1 = length truth_full"
  by (simp_all add: volume_a1_def truth_a1_def volume_a2_def volume_b1_def truth_full_def)

lemma example_loop:
  "test_loop (example_run bound_globals) 0 initial_state example_test_data
     = Inr \<lparr> test_iou =
               [(PyStr ''A'', \<lparr> n_samples = 2,
                                iou = [ [Fin (1 / 2), Fin (3 / 5)], [Fin (7 / 10), Fin (4 / 5)] ] \<rparr>),
                (PyStr ''B'', \<lparr> n_samples = 1, iou = [ [Fin (1 / 5), Fin (3 / 10)] ] \<rparr>)],
             disparity_losses = \<lparr> meter_sum = 0, meter_count = 3 \<rparr>,
             voxel_losses = \<lparr> meter_sum = 0, meter_count = 3 \<rparr> \<rparr>"
  by (simp add: example_test_data_def example_step example_lengths example_visualize
        iou_a1 iou_a2 iou_b1 initial_state_def record_iou_def py_in_def meter_update_def Let_def)

lemma example_data_nonempty: "example_test_data \<noteq> []" "equal_counts_data \<noteq> []"
  by (simp_all add: example_test_data_def equal_counts_data_def)

lemma example_thresholds: "length (VOXEL_THRESH (example_run g)) = 2"
  by (simp add: example_run_def)

lemma upt_2: "[0..<2] = [0, Suc 0]"
  by (simp add: upt_rec)

lemmas mean_simps = weighted_average_def elementwise_mean_def fl_sum_def fdiv_def upt_2

text \<open>
  Witness for C1: the end-to-end example of the specification.  Taxonomy \<open>A\<close> has two
  samples with the IoU vectors \<open>[0.5, 0.6]\<close> and \<open>[0.7, 0.8]\<close>, taxonomy \<open>B\<close> has one
  sample with \<open>[0.2, 0.3]\<close>; the overall vector is
  \<open>([0.6, 0.7] * 2 + [0.2, 0.3] * 1) / 3 = [7/15, 17/30]\<close>.
\<close>

theorem overall_mean_is_weighted_average_witness:
  "(\<exists>st. test_loop (example_run bound_globals) 0 initial_state example_test_data = Inr st)
   \<and> example_test_data \<noteq> []
   \<and> evaluation_pass (example_run bound_globals) example_test_data =
       Inr \<lparr> per_taxonomy =
               [(PyStr ''A'', (2, Array1 [Fin (3 / 5), Fin (7 / 10)])),
                (PyStr ''B'', (1, Array1 [Fin (1 / 5), Fin (3 / 10)]))],
             mean_iou = Array1 [Fin (7 / 15), Fin (17 / 30)] \<rparr>"
proof -
  note th = overall_mean_is_weighted_average [OF example_loop example_data_nonempty(1)]
  have "evaluation_pass (example_run bound_globals) example_test_data =
       Inr \<lparr> per_taxonomy =
               [(PyStr ''A'', (2, Array1 [Fin (3 / 5), Fin (7 / 10)])),
                (PyStr ''B'', (1, Array1 [Fin (1 / 5), Fin (3 / 10)]))],
             mean_iou = Array1 [Fin (7 / 15), Fin (17 / 30)] \<rparr>"
    unfolding th [THEN conjunct1] example_thresholds by (simp add: mean_simps)
  then show ?thesis using example_loop example_data_nonempty(1) by simp
qed

lemma equal_counts_loop:
  "test_loop (example_run bound_globals) 0 initial_state equal_counts_data
     = Inr \<lparr> test_iou =
               [(PyStr ''A'', \<lparr> n_samples = 1, iou = [ [Fin (1 / 2), Fin (3 / 5)] ] \<rparr>),
                (PyStr ''B'', \<lparr> n_samples = 1, iou = [ [Fin (1 / 5), Fin (3 / 10)] ] \<rparr>)],
             disparity_losses = \<lparr> meter_sum = 0, meter_count = 2 \<rparr>,
             voxel_losses = \<lparr> meter_sum = 0, meter_count = 2 \<rparr> \<rparr>"
  by (simp add: equal_counts_data_def example_step example_lengths example_visualize
        iou_a1 iou_b1 initial_state_def record_iou_def py_in_def meter_update_def Let_def)

text \<open>
  Witness for C8: one sample in each of the two taxonomies; the overall vector is
  \<open>([0.5, 0.6] + [0.2, 0.3]) / 2\<close>.
\<close>

theorem equal_counts_give_simple_average_witness:
  "(\<exists>st. test_loop (example_run bound_globals) 0 initial_state equal_counts_data = Inr st
         \<and> (\<forall>kb \<in> set (test_iou st). n_samples (snd kb) = 1))
   \<and> equal_counts_data \<noteq> []
   \<and> (\<exists>rep. evaluation_pass (example_run bound_globals) equal_counts_data = Inr rep
          \<and> mean_iou rep = Array1 [Fin (7 / 20), Fin (9 / 20)])"
proof -
  let ?st = "\<lparr> test_iou =
               [(PyStr ''A'', \<lparr> n_samples = 1, iou = [ [Fin (1 / 2), Fin (3 / 5)] ] \<rparr>),
                (PyStr ''B'', \<lparr> n_samples = 1, iou = [ [Fin (1 / 5), Fin (3 / 10)] ] \<rparr>)],
             disparity_losses = \<lparr> meter_sum = 0, meter_count = 2 \<rparr>,
             voxel_losses = \<lparr> meter_sum = 0, meter_count = 2 \<rparr> \<rparr>"
  have eq: "\<forall>kb \<in> set (test_iou ?st). n_samples (snd kb) = 1" by simp
  note th = equal_counts_give_simple_average [OF equal_counts_loop example_data_nonempty(2) eq]
  have "\<exists>rep. evaluation_pass (example_run bound_globals) equal_counts_data = Inr rep
          \<and> mean_iou rep = Array1 [Fin (7 / 20), Fin (9 / 20)]"
    using th unfolding example_thresholds by (simp add: mean_simps)
  then show ?thesis using equal_counts_loop eq example_data_nonempty(2) by simp
qed

text \<open>
  Witness for C9: the example run after its three iterations, and its report.
\<close>

theorem iou_vectors_have_threshold_length_witness:
  "(\<exists>st. test_loop (example_run bound_globals) 0 initial_state (take 3 example_test_data) = Inr st
        \<and> test_iou st \<noteq> [] 
        \<and> (\<forall>kb \<in> set (test_iou st). \<forall>v \<in> set (iou (snd kb)). length v = 2))
   \<and> (\<exists>rep. evaluation_pass (example_run bound_globals) example_test_data = Inr rep
        \<and> per_taxonomy rep \<noteq> []
        \<and> (\<forall>e \<in> set (per_taxonomy rep). 1 \<le> fst (snd e)
              \<and> (\<exists>v. snd (snd e) = Array1 v \<and> length v = 2)))"
proof -
  note th = iou_vectors_have_threshold_length [of "example_run bound_globals" example_test_data]
  have t: "take 3 example_test_data = example_test_data"
    by (simp add: example_test_data_def)
  have loop: "test_loop (example_run bound_globals) 0 initial_state (take 3 example_test_data)
     = Inr \<lparr> test_iou =
               [(PyStr ''A'', \<lparr> n_samples = 2,
                                iou = [ [Fin (1 / 2), Fin (3 / 5)], [Fin (7 / 10), Fin (4 / 5)] ] \<rparr>),
                (PyStr ''B'', \<lparr> n_samples = 1, iou = [ [Fin (1 / 5), Fin (3 / 10)] ] \<rparr>)],
             disparity_losses = \<lparr> meter_sum = 0, meter_count = 3 \<rparr>,
             voxel_losses = \<lparr> meter_sum = 0, meter_count = 3 \<rparr> \<rparr>"
    unfolding t by (rule example_loop)
  note a = th [THEN conjunct1, THEN spec, THEN spec, THEN mp, OF loop,
               unfolded example_thresholds]
  have out: "\<exists>rep. evaluation_pass (example_run bound_globals) example_test_data = Inr rep
               \<and> per_taxonomy rep \<noteq> []"
    using example_loop example_data_nonempty(1) by (rule evaluation_pass_completes)
  then obtain rep where rep: "evaluation_pass (example_run bound_globals) example_test_data = Inr rep"
    and ne: "per_taxonomy rep \<noteq> []" by blast
  note b = th [THEN conjunct2, THEN spec, THEN mp, OF rep, unfolded example_thresholds]
  have first: "\<exists>st. test_loop (example_run bound_globals) 0 initial_state
                     (take 3 example_test_data) = Inr st
        \<and> test_iou st \<noteq> []
        \<and> (\<forall>kb \<in> set (test_iou st). \<forall>v \<in> set (iou (snd kb)). length v = 2)"
    by (rule exI, intro conjI, rule loop, simp, rule a)
  have second: "\<exists>rep. evaluation_pass (example_run bound_globals) example_test_data = Inr rep
        \<and> per_taxonomy rep \<noteq> []
        \<and> (\<forall>e \<in> set (per_taxonomy rep). 1 \<le> fst (snd e)
              \<and> (\<exists>v. snd (snd e) = Array1 v \<and> length v = 2))"
    by (rule exI, intro conjI, rule rep, rule ne, rule b)
  from first second show ?thesis by (rule conjI)
qed

text \<open>
  Witness for C2: the first sample of the example at the two thresholds.
\<close>

theorem sample_iou_as_specified_witness:
  "set truth_a1 \<subseteq> {0, 1}
   \<and> sample_iou_of [1 / 2, 3 / 10] (map Fin volume_a1) truth_a1
       = map (spec_iou (map Fin volume_a1) truth_a1) [1 / 2, 3 / 10]
   \<and> map (spec_iou (map Fin volume_a1) truth_a1) [1 / 2, 3 / 10] = [Fin (1 / 2), Fin (3 / 5)]"
proof -
  have gt: "set truth_a1 \<subseteq> {0, 1}" by (simp add: truth_a1_def)
  note th = sample_iou_as_specified [OF gt, of "[1 / 2, 3 / 10]" "map Fin volume_a1"]
  from gt th iou_a1 show ?thesis by simp
qed

text \<open>
  Witness for C7: the first sample of the example at the threshold \<open>0.5\<close>, where the
  union is \<open>4\<close>.
\<close>

theorem iou_in_unit_interval_witness:
  "set truth_a1 \<subseteq> {0, 1}
   \<and> 0 < union_th (map Fin volume_a1) truth_a1 (1 / 2)
   \<and> (\<exists>x. iou_th (map Fin volume_a1) truth_a1 (1 / 2) = Fin x \<and> 0 \<le> x \<and> x \<le> 1)"
proof -
  have gt: "set truth_a1 \<subseteq> {0, 1}" by (simp add: truth_a1_def)
  have u: "0 < union_th (map Fin volume_a1) truth_a1 (1 / 2)"
    by (simp add: union_th_def volume_th_def volume_a1_def truth_a1_def)
  from gt u iou_in_unit_interval [OF gt u] show ?thesis by blast
qed

text \<open>
  Claim C5.  With the names as \<^verbatim>\<open>test.py\<close> binds them, the evaluation pass over the
  example data raises \<^verbatim>\<open>NameError\<close> for \<^verbatim>\<open>mse_loss\<close> at the first sample: no
  disparity loss is computed or recorded.
\<close>

theorem disparity_loss_name_error:
  "evaluation_pass (example_run test_py_globals) example_test_data = Inl (NameError ''mse_loss'')"
  by (simp add: evaluation_pass_def example_test_data_def test_step_def Let_def example_run_def
        example_batch_def example_nets_def fuse_same disparity_loss_unbound)

end
